theory Spec2Isabelle
  imports Main "HOL-Library.Word"
begin

unbundle bit_operations_syntax

section \<open>Python values, exceptions and the outside world\<close>

text \<open>
  A shallow embedding of \<^verbatim>\<open>chipsec/helper/linux/linuxhelper.py\<close>. Python integers are
  \<open>int\<close>, byte strings are lists of 8-bit words, text strings are \<open>string\<close>: a
  character is a code point below 256.
  An exception is the \<open>Inl\<close> branch of a sum; everything the helper does to the outside
  (control calls, affinity pins, seeks and transfers on the device file, debug
  diagnostics) is appended to a trace, so that order and number of effects can be stated.
\<close>

type_synonym byte = "8 word"

datatype pyerr =
    IOError | StructError | ValueError | AttributeError | TypeError
  | UnboundLocalError | OsHelperError

datatype pyval = PNone | PInt int | PBytes "byte list" | PStr string

datatype diag =
    DbgIOError | DbgBadSize int | DbgIOErrorGetVar | DbgIncorrectSize
  | DbgGetFailed int | DbgSetFailed int | DbgListFailed

datatype event =
    SchedSetaffinity int
  | Ioctl int "byte list"
  | Seek int
  | Read int
  | Write "byte list"
  | Flush
  | LogDebug diag
  | Remount

record world =
  trace :: "event list"
  fpos :: int

text \<open>
  The environment: what the operating system and the driver answer. The driver's reply
  to a control call may depend on everything that happened before (the trace), on the
  identifier and on the request bytes; \<open>None\<close> is an \<^verbatim>\<open>OSError\<close> raised by
  \<^verbatim>\<open>fcntl.ioctl\<close>.
\<close>

record env =
  maxsize :: int
  open_device :: bool
  fcntl_ioctl :: "event list \<Rightarrow> int \<Rightarrow> byte list \<Rightarrow> byte list option"
  sched_setaffinity :: "int \<Rightarrow> bool"
  fh_seek :: "int \<Rightarrow> pyerr option"
  fh_read :: "event list \<Rightarrow> int \<Rightarrow> int \<Rightarrow> byte list"
  isdir_efivars :: bool
  listdir_efivars :: "string list option"
  isdir_vars :: bool
  listdir_vars :: "string list option"

section \<open>struct.pack and struct.unpack\<close>

text \<open>
  The host is x86, so native byte order is little-endian. Every format of the source is
  a run of equal unsigned integers followed by \<^verbatim>\<open>s\<close> fields, which never needs
  alignment padding.
\<close>

datatype fmt = Q | I

fun calcsize :: "fmt \<Rightarrow> nat" where
  "calcsize Q = 8"
| "calcsize I = 4"

fun le_bytes :: "nat \<Rightarrow> nat \<Rightarrow> byte list" where
  "le_bytes 0 v = []"
| "le_bytes (Suc n) v = of_nat (v mod 256) # le_bytes n (v div 256)"

fun le_val :: "byte list \<Rightarrow> nat" where
  "le_val [] = 0"
| "le_val (b # bs) = unat b + 256 * le_val bs"

definition pack_uint :: "nat \<Rightarrow> int \<Rightarrow> pyerr + byte list" where
  "pack_uint n v =
     (if 0 \<le> v \<and> v < 2 ^ (8 * n) then Inr (le_bytes n (nat v)) else Inl StructError)"

fun pack_uints :: "nat \<Rightarrow> int list \<Rightarrow> pyerr + byte list" where
  "pack_uints n [] = Inr []"
| "pack_uints n (v # vs) =
     (case pack_uint n v of
        Inl e \<Rightarrow> Inl e
      | Inr b \<Rightarrow> (case pack_uints n vs of Inl e \<Rightarrow> Inl e | Inr bs \<Rightarrow> Inr (b @ bs)))"

fun unpack_list :: "nat \<Rightarrow> nat \<Rightarrow> byte list \<Rightarrow> int list" where
  "unpack_list n 0 buf = []"
| "unpack_list n (Suc k) buf = int (le_val (take n buf)) # unpack_list n k (drop n buf)"

definition unpack_uints :: "nat \<Rightarrow> nat \<Rightarrow> byte list \<Rightarrow> pyerr + int list" where
  "unpack_uints n k buf =
     (if length buf = n * k then Inr (unpack_list n k buf) else Inl StructError)"

text \<open>\<^verbatim>\<open>struct.pack(str(n) + 's', v)\<close>: \<open>v\<close> must be a bytes object; it is cut or
  zero-padded to \<open>n\<close> bytes.\<close>

definition pack_s :: "nat \<Rightarrow> pyval \<Rightarrow> pyerr + byte list" where
  "pack_s n v =
     (case v of
        PBytes b \<Rightarrow> Inr (take n b @ replicate (n - length b) 0)
      | _ \<Rightarrow> Inl StructError)"

section \<open>The helper object\<close>

record helper =
  pack :: "fmt option"
  dev_fh :: bool
  driver_loaded :: bool
  ioctl_base :: "int option"

definition IOCTL_RDIO :: int where "IOCTL_RDIO = 0x1"
definition IOCTL_WRIO :: int where "IOCTL_WRIO = 0x2"
definition IOCTL_RDMSR :: int where "IOCTL_RDMSR = 0x5"
definition IOCTL_WRMSR :: int where "IOCTL_WRMSR = 0x6"
definition IOCTL_GET_CPU_DESCRIPTOR_TABLE :: int where "IOCTL_GET_CPU_DESCRIPTOR_TABLE = 0x8"
definition IOCTL_SWSMI :: int where "IOCTL_SWSMI = 0xA"
definition IOCTL_GET_EFIVAR :: int where "IOCTL_GET_EFIVAR = 0xD"
definition IOCTL_SET_EFIVAR :: int where "IOCTL_SET_EFIVAR = 0xE"
definition IOCTL_RDCR :: int where "IOCTL_RDCR = 0x10"
definition IOCTL_WRCR :: int where "IOCTL_WRCR = 0x11"

text \<open>\<^verbatim>\<open>compute_ioctlbase(self, itype='C')\<close>; \<^verbatim>\<open>self._pack\<close> is unset before
  \<^verbatim>\<open>init\<close>.\<close>

definition compute_ioctlbase :: "helper \<Rightarrow> char \<Rightarrow> pyerr + int" where
  "compute_ioctlbase h itype =
     (case pack h of
        None \<Rightarrow> Inl AttributeError
      | Some p \<Rightarrow>
          Inr (push_bit 30 3 OR push_bit 8 (of_char itype) OR push_bit 16 (int (calcsize p))))"

text \<open>\<^verbatim>\<open>init(self, start_driver)\<close>. The object is mutated before an exception leaves,
  so the helper is returned beside the outcome.\<close>

definition init :: "env \<Rightarrow> bool \<Rightarrow> helper \<Rightarrow> (pyerr + unit) \<times> helper" where
  "init e start_driver h =
     (let x64 = (maxsize e > 2 ^ 32);
          h1 = h\<lparr>pack := Some (if x64 then Q else I)\<rparr>
      in if start_driver then
           (if open_device e then
              (let h2 = h1\<lparr>dev_fh := True, driver_loaded := True\<rparr>
               in case compute_ioctlbase h2 CHR ''C'' of
                    Inl err \<Rightarrow> (Inl err, h2)
                  | Inr b \<Rightarrow> (Inr (), h2\<lparr>ioctl_base := Some b\<rparr>))
            else (Inl OsHelperError, h1))
         else (Inr (), h1))"

text \<open>\<^verbatim>\<open>ioctl(self, nr, args)\<close>. The arguments of \<^verbatim>\<open>fcntl.ioctl\<close> are evaluated
  first (an unset \<^verbatim>\<open>_ioctl_base\<close> is an AttributeError), then a handle that is
  \<^verbatim>\<open>None\<close> is refused with a TypeError. The driver writes its answer over the
  request: for a bytes argument \<^verbatim>\<open>fcntl.ioctl\<close> copies the request into a buffer and
  returns as many bytes of that buffer as the request had, so the reply always has the
  length of the request (every bytes request of the source is at most eleven words,
  below the limit of 1024 bytes).\<close>

definition ioctl :: "env \<Rightarrow> helper \<Rightarrow> int \<Rightarrow> byte list \<Rightarrow> world \<Rightarrow> (pyerr + byte list) \<times> world" where
  "ioctl e h nr args w =
     (case ioctl_base h of
        None \<Rightarrow> (Inl AttributeError, w)
      | Some b \<Rightarrow>
          if \<not> dev_fh h then (Inl TypeError, w)
          else (let w' = w\<lparr>trace := trace w @ [Ioctl (b + nr) args]\<rparr>
                in case fcntl_ioctl e (trace w) (b + nr) args of
                     None \<Rightarrow> (Inl IOError, w')
                   | Some r \<Rightarrow> (Inr (take (length args) r @ drop (length r) args), w')))"

text \<open>\<^verbatim>\<open>ioctl\<close> with a mutable \<^verbatim>\<open>array.array\<close> argument: the driver writes into
  the array in place, and the caller reads the answer from the array; the bytes are the
  same as for a bytes argument.\<close>

definition ioctl_array :: "env \<Rightarrow> helper \<Rightarrow> int \<Rightarrow> byte list \<Rightarrow> world \<Rightarrow> (pyerr + byte list) \<times> world" where
  "ioctl_array e h nr buffer w = ioctl e h nr buffer w"

text \<open>\<^verbatim>\<open>struct.pack(str(k) + self._pack, v1, ..., vk)\<close> and its inverse.\<close>

definition pack_words :: "helper \<Rightarrow> int list \<Rightarrow> pyerr + byte list" where
  "pack_words h vs =
     (case pack h of None \<Rightarrow> Inl AttributeError | Some p \<Rightarrow> pack_uints (calcsize p) vs)"

definition unpack_words :: "helper \<Rightarrow> nat \<Rightarrow> byte list \<Rightarrow> pyerr + int list" where
  "unpack_words h k buf =
     (case pack h of None \<Rightarrow> Inl AttributeError | Some p \<Rightarrow> unpack_uints (calcsize p) k buf)"

section \<open>Python slices\<close>

text \<open>\<^verbatim>\<open>xs[lo:hi]\<close>: a negative bound counts from the end, and every bound is clamped to
  the sequence, so a slice never raises.\<close>

definition py_index :: "nat \<Rightarrow> int \<Rightarrow> nat" where
  "py_index n i = (if i < 0 then nat (int n + i) else min n (nat i))"

definition py_slice :: "int option \<Rightarrow> int option \<Rightarrow> 'a list \<Rightarrow> 'a list" where
  "py_slice lo hi xs =
     (let n = length xs;
          a = (case lo of None \<Rightarrow> 0 | Some i \<Rightarrow> py_index n i);
          b = (case hi of None \<Rightarrow> n | Some j \<Rightarrow> py_index n j)
      in drop a (take b xs))"

section \<open>Physical memory\<close>

text \<open>\<^verbatim>\<open>__mem_block(self, sz, newval=None)\<close>\<close>

definition mem_block :: "env \<Rightarrow> helper \<Rightarrow> int \<Rightarrow> byte list option \<Rightarrow> world \<Rightarrow> (pyerr + pyval) \<times> world" where
  "mem_block e h sz newval w =
     (if \<not> dev_fh h then (Inl AttributeError, w)
      else case newval of
             None \<Rightarrow>
               (let d = fh_read e (trace w) (fpos w) sz
                in (Inr (PBytes d), w\<lparr>trace := trace w @ [Read sz], fpos := fpos w + int (length d)\<rparr>))
           | Some v \<Rightarrow>
               (Inr (PInt 1), w\<lparr>trace := trace w @ [Write v, Flush], fpos := fpos w + int (length v)\<rparr>))"

definition seek :: "env \<Rightarrow> helper \<Rightarrow> int \<Rightarrow> world \<Rightarrow> (pyerr + unit) \<times> world" where
  "seek e h addr w =
     (if \<not> dev_fh h then (Inl AttributeError, w)
      else case fh_seek e addr of
             Some err \<Rightarrow> (Inl err, w\<lparr>trace := trace w @ [Seek addr]\<rparr>)
           | None \<Rightarrow> (Inr (), w\<lparr>trace := trace w @ [Seek addr], fpos := addr\<rparr>))"

definition write_phys_mem ::
  "env \<Rightarrow> helper \<Rightarrow> int \<Rightarrow> int \<Rightarrow> int \<Rightarrow> byte list option \<Rightarrow> world \<Rightarrow> (pyerr + pyval) \<times> world" where
  "write_phys_mem e h phys_address_hi phys_address_lo len newval w =
     (case newval of
        None \<Rightarrow> (Inr PNone, w)
      | Some v \<Rightarrow>
          (let addr = push_bit 32 phys_address_hi OR phys_address_lo
           in case seek e h addr w of
                (Inl err, w') \<Rightarrow> (Inl err, w')
              | (Inr _, w') \<Rightarrow> mem_block e h len (Some v) w'))"

definition read_phys_mem ::
  "env \<Rightarrow> helper \<Rightarrow> int \<Rightarrow> int \<Rightarrow> int \<Rightarrow> world \<Rightarrow> (pyerr + pyval) \<times> world" where
  "read_phys_mem e h phys_address_hi phys_address_lo len w =
     (let addr = push_bit 32 phys_address_hi OR phys_address_lo
      in case seek e h addr w of
           (Inl err, w') \<Rightarrow> (Inl err, w')
         | (Inr _, w') \<Rightarrow> mem_block e h len None w')"

section \<open>I/O ports, PCI configuration space and MMIO\<close>

text \<open>\<^verbatim>\<open>read_io_port(self, io_port, size)\<close>. The three branches unpack the same reply
  and differ in the mask. When unpacking raises, the handler logs and falls through to
  \<^verbatim>\<open>return value\<close> with \<^verbatim>\<open>value\<close> never assigned.\<close>

definition read_io_port :: "env \<Rightarrow> helper \<Rightarrow> int \<Rightarrow> int \<Rightarrow> world \<Rightarrow> (pyerr + int) \<times> world" where
  "read_io_port e h io_port sz w =
     (case pack_words h [io_port, sz, 0] of
        Inl err \<Rightarrow> (Inl err, w)
      | Inr in_buf \<Rightarrow>
          (case ioctl e h IOCTL_RDIO in_buf w of
             (Inl err, w') \<Rightarrow> (Inl err, w')
           | (Inr out_buf, w') \<Rightarrow>
               (let val =
                      (if 1 = sz then
                         map_sum id (\<lambda>x. (x ! 2) AND 0xff) (unpack_words h 3 out_buf)
                       else if 2 = sz then
                         map_sum id (\<lambda>x. (x ! 2) AND 0xffff) (unpack_words h 3 out_buf)
                       else
                         map_sum id (\<lambda>x. (x ! 2) AND 0xffffffff) (unpack_words h 3 out_buf))
                in case val of
                     Inl _ \<Rightarrow>
                       (Inl UnboundLocalError, w'\<lparr>trace := trace w' @ [LogDebug (DbgBadSize sz)]\<rparr>)
                   | Inr v \<Rightarrow> (Inr v, w'))))"




section \<open>Affinity and per-core operations\<close>

text \<open>\<^verbatim>\<open>set_affinity(self, thread_id)\<close>: a failing \<^verbatim>\<open>os.sched_setaffinity\<close> is swallowed
  and \<^verbatim>\<open>None\<close> returned.\<close>

definition set_affinity :: "env \<Rightarrow> int \<Rightarrow> world \<Rightarrow> int option \<times> world" where
  "set_affinity e thread_id w =
     (if sched_setaffinity e thread_id then Some thread_id else None,
      w\<lparr>trace := trace w @ [SchedSetaffinity thread_id]\<rparr>)"

definition read_cr :: "env \<Rightarrow> helper \<Rightarrow> int \<Rightarrow> int \<Rightarrow> world \<Rightarrow> (pyerr + int) \<times> world" where
  "read_cr e h cpu_thread_id cr_number w =
     (let w1 = snd (set_affinity e cpu_thread_id w);
          cr = 0
      in case pack_words h [cpu_thread_id, cr_number, cr] of
           Inl err \<Rightarrow> (Inl err, w1)
         | Inr in_buf \<Rightarrow>
             (case ioctl e h IOCTL_RDCR in_buf w1 of
                (Inl err, w2) \<Rightarrow> (Inl err, w2)
              | (Inr out_buf, w2) \<Rightarrow>
                  (case unpack_words h 3 out_buf of
                     Inl err \<Rightarrow> (Inl err, w2)
                   | Inr unbuf \<Rightarrow> (Inr (unbuf ! 2), w2))))"

definition write_cr :: "env \<Rightarrow> helper \<Rightarrow> int \<Rightarrow> int \<Rightarrow> int \<Rightarrow> world \<Rightarrow> (pyerr + unit) \<times> world" where
  "write_cr e h cpu_thread_id cr_number val w =
     (let w1 = snd (set_affinity e cpu_thread_id w)
      in case pack_words h [cpu_thread_id, cr_number, val] of
           Inl err \<Rightarrow> (Inl err, w1)
         | Inr in_buf \<Rightarrow>
             (case ioctl e h IOCTL_WRCR in_buf w1 of
                (Inl err, w2) \<Rightarrow> (Inl err, w2)
              | (Inr _, w2) \<Rightarrow> (Inr (), w2)))"

definition read_msr :: "env \<Rightarrow> helper \<Rightarrow> int \<Rightarrow> int \<Rightarrow> world \<Rightarrow> (pyerr + int \<times> int) \<times> world" where
  "read_msr e h thread_id msr_addr w =
     (let w1 = snd (set_affinity e thread_id w);
          edx = 0; eax = 0
      in case pack_words h [thread_id, msr_addr, edx, eax] of
           Inl err \<Rightarrow> (Inl err, w1)
         | Inr in_buf \<Rightarrow>
             (case ioctl e h IOCTL_RDMSR in_buf w1 of
                (Inl err, w2) \<Rightarrow> (Inl err, w2)
              | (Inr out_buf, w2) \<Rightarrow>
                  (case unpack_words h 4 out_buf of
                     Inl err \<Rightarrow> (Inl err, w2)
                   | Inr unbuf \<Rightarrow> (Inr (unbuf ! 3, unbuf ! 2), w2))))"

definition write_msr :: "env \<Rightarrow> helper \<Rightarrow> int \<Rightarrow> int \<Rightarrow> int \<Rightarrow> int \<Rightarrow> world \<Rightarrow> (pyerr + unit) \<times> world" where
  "write_msr e h thread_id msr_addr eax edx w =
     (let w1 = snd (set_affinity e thread_id w)
      in case pack_words h [thread_id, msr_addr, edx, eax] of
           Inl err \<Rightarrow> (Inl err, w1)
         | Inr in_buf \<Rightarrow>
             (case ioctl e h IOCTL_WRMSR in_buf w1 of
                (Inl err, w2) \<Rightarrow> (Inl err, w2)
              | (Inr _, w2) \<Rightarrow> (Inr (), w2)))"

definition get_descriptor_table ::
  "env \<Rightarrow> helper \<Rightarrow> int \<Rightarrow> int \<Rightarrow> world \<Rightarrow> (pyerr + int \<times> int \<times> int) \<times> world" where
  "get_descriptor_table e h cpu_thread_id desc_table_code w =
     (let w1 = snd (set_affinity e cpu_thread_id w)
      in case pack_words h [cpu_thread_id, desc_table_code, 0, 0, 0] of
           Inl err \<Rightarrow> (Inl err, w1)
         | Inr in_buf \<Rightarrow>
             (case ioctl e h IOCTL_GET_CPU_DESCRIPTOR_TABLE in_buf w1 of
                (Inl err, w2) \<Rightarrow> (Inl err, w2)
              | (Inr out_buf, w2) \<Rightarrow>
                  (case unpack_words h 5 out_buf of
                     Inl err \<Rightarrow> (Inl err, w2)
                   | Inr x \<Rightarrow>
                       (let limit = x ! 0; base_hi = x ! 1; base_lo = x ! 2;
                            pa_hi = x ! 3; pa_lo = x ! 4;
                            pa = push_bit 32 pa_hi + pa_lo;
                            base = push_bit 32 base_hi + base_lo
                        in (Inr (limit, base, pa), w2)))))"

definition send_sw_smi ::
  "env \<Rightarrow> helper \<Rightarrow> int \<Rightarrow> int \<Rightarrow> int \<Rightarrow> int \<Rightarrow> int \<Rightarrow> int \<Rightarrow> int \<Rightarrow> int \<Rightarrow> world
     \<Rightarrow> (pyerr + int list) \<times> world" where
  "send_sw_smi e h cpu_thread_id SMI_code_data rax rbx rcx rdx rsi rdi w =
     (let w1 = snd (set_affinity e cpu_thread_id w)
      in case pack_words h [SMI_code_data, rax, rbx, rcx, rdx, rsi, rdi] of
           Inl err \<Rightarrow> (Inl err, w1)
         | Inr in_buf \<Rightarrow>
             (case ioctl e h IOCTL_SWSMI in_buf w1 of
                (Inl err, w2) \<Rightarrow> (Inl err, w2)
              | (Inr out_buf, w2) \<Rightarrow>
                  (case unpack_words h 7 out_buf of
                     Inl err \<Rightarrow> (Inl err, w2)
                   | Inr ret \<Rightarrow> (Inr ret, w2))))"

section \<open>int(s, 16)\<close>

definition isspace :: "char \<Rightarrow> bool" where
  "isspace c =
     (c \<in> set [CHR 0x09, CHR 0x0A, CHR 0x0B, CHR 0x0C, CHR 0x0D, CHR '' '', CHR 0x85, CHR 0xA0])"

definition hexdigit :: "char \<Rightarrow> nat option" where
  "hexdigit c =
     (let n = (of_char c :: nat)
      in if 48 \<le> n \<and> n \<le> 57 then Some (n - 48)
         else if 97 \<le> n \<and> n \<le> 102 then Some (n - 87)
         else if 65 \<le> n \<and> n \<le> 70 then Some (n - 55)
         else None)"

definition digit_or_underscore :: "char \<Rightarrow> bool" where
  "digit_or_underscore c = (hexdigit c \<noteq> None \<or> c = CHR ''_'')"

fun adjacent_underscores :: "string \<Rightarrow> bool" where
  "adjacent_underscores (a # b # cs) =
     ((a = CHR ''_'' \<and> b = CHR ''_'') \<or> adjacent_underscores (b # cs))"
| "adjacent_underscores _ = False"

definition hexval :: "string \<Rightarrow> nat" where
  "hexval s = foldl (\<lambda>acc c. 16 * acc + (case hexdigit c of Some d \<Rightarrow> d | None \<Rightarrow> 0)) 0 s"

text \<open>\<^verbatim>\<open>int(s, 16)\<close>: surrounding whitespace (the six ASCII ones and, of the code
  points from 128 to 255, the next-line and no-break-space characters), one sign, an
  optional \<^verbatim>\<open>0x\<close> prefix (which may be followed by one underscore), then hexadecimal
  digits with single underscores between them. Anything else is a ValueError.\<close>

definition py_int16 :: "string \<Rightarrow> pyerr + int" where
  "py_int16 s =
     (let s1 = dropWhile isspace s;
          neg = (case s1 of c # _ \<Rightarrow> c = CHR ''-'' | [] \<Rightarrow> False);
          s2 = (case s1 of
                  c # r \<Rightarrow> if c = CHR ''+'' \<or> c = CHR ''-'' then r else s1
                | [] \<Rightarrow> s1);
          s3 = (case s2 of
                  c0 # cx # r \<Rightarrow>
                    if c0 = CHR ''0'' \<and> (cx = CHR ''x'' \<or> cx = CHR ''X'')
                    then (case r of u # r' \<Rightarrow> if u = CHR ''_'' then r' else r | [] \<Rightarrow> r)
                    else s2
                | _ \<Rightarrow> s2);
          run = takeWhile digit_or_underscore s3;
          rest = dropWhile digit_or_underscore s3
      in if run = [] \<or> hd run = CHR ''_'' \<or> last run = CHR ''_'' \<or> adjacent_underscores run
            \<or> dropWhile isspace rest \<noteq> []
         then Inl ValueError
         else Inr ((if neg then - 1 else 1) * int (hexval (filter (\<lambda>c. c \<noteq> CHR ''_'') run))))"

section \<open>UEFI variables\<close>

text \<open>The eleven assignments \<^verbatim>\<open>guid0 = int(guid[:8], 16)\<close> ... \<^verbatim>\<open>guid10 = int(guid[34:], 16)\<close>
  of both GET and SET, in their order; the first one that raises ends the call.\<close>

definition guid_slices :: "(int option \<times> int option) list" where
  "guid_slices =
     [(None, Some 8), (Some 9, Some 13), (Some 14, Some 18), (Some 19, Some 21),
      (Some 21, Some 23), (Some 24, Some 26), (Some 26, Some 28), (Some 28, Some 30),
      (Some 30, Some 32), (Some 32, Some 34), (Some 34, None)]"

fun collect :: "(pyerr + 'a) list \<Rightarrow> pyerr + 'a list" where
  "collect [] = Inr []"
| "collect (x # xs) =
     (case x of
        Inl e \<Rightarrow> Inl e
      | Inr v \<Rightarrow> (case collect xs of Inl e \<Rightarrow> Inl e | Inr vs \<Rightarrow> Inr (v # vs)))"

definition guid_fields :: "string \<Rightarrow> pyerr + int list" where
  "guid_fields guid = collect (map (\<lambda>(lo, hi). py_int16 (py_slice lo hi guid)) guid_slices)"

text \<open>\<^verbatim>\<open>name.encode()\<close>, UTF-8: one byte for a code point below 128, two bytes for
  the others.\<close>

definition utf8 :: "char \<Rightarrow> byte list" where
  "utf8 c =
     (let n = (of_char c :: nat)
      in if n < 128 then [of_nat n] else [of_nat (192 + n div 64), of_nat (128 + n mod 64)])"

definition encode :: "string \<Rightarrow> byte list" where
  "encode name = concat (map utf8 name)"

text \<open>\<^verbatim>\<open>struct.pack(str(k) + 'I' + str(n1) + 's' + ..., w1, ..., wk, b1, ...)\<close>\<close>

fun pack_ss :: "(nat \<times> pyval) list \<Rightarrow> pyerr + byte list" where
  "pack_ss [] = Inr []"
| "pack_ss ((n, v) # r) =
     (case pack_s n v of
        Inl e \<Rightarrow> Inl e
      | Inr b \<Rightarrow> (case pack_ss r of Inl e \<Rightarrow> Inl e | Inr bs \<Rightarrow> Inr (b @ bs)))"

definition pack_I_s :: "int list \<Rightarrow> (nat \<times> pyval) list \<Rightarrow> pyerr + byte list" where
  "pack_I_s ws ss =
     (case pack_uints 4 ws of
        Inl e \<Rightarrow> Inl e
      | Inr b \<Rightarrow> (case pack_ss ss of Inl e \<Rightarrow> Inl e | Inr bs \<Rightarrow> Inr (b @ bs)))"

type_synonym efi_tuple = "int \<times> byte list \<times> int \<times> pyval \<times> pyval \<times> int"

text \<open>Lines 522 to 534 of \<^verbatim>\<open>kern_get_EFI_variable_full\<close>, reached after the probe or
  after the retry: the size check, the status check, and the slices of the reply.\<close>

definition get_EFI_variable_result ::
  "string \<Rightarrow> int \<Rightarrow> byte list \<Rightarrow> int \<Rightarrow> int \<Rightarrow> world \<Rightarrow> (pyerr + efi_tuple) \<times> world" where
  "get_EFI_variable_result guid data_size buffer new_size status w =
     (let off = 0; buf = []; hdr = 0; attr = 0; base = 12
      in if new_size > data_size then
           (Inr (off, buf, hdr, PNone, PStr guid, attr),
            w\<lparr>trace := trace w @ [LogDebug DbgIncorrectSize]\<rparr>)
         else if status > 0 then
           (Inr (off, buf, hdr, PStr [], PInt 0, 0),
            w\<lparr>trace := trace w @ [LogDebug (DbgGetFailed status)]\<rparr>)
         else
           (let data = py_slice (Some base) (Some (base + new_size)) buffer
            in case unpack_uints 4 1 (py_slice (Some 8) (Some 12) buffer) of
                 Inl err \<Rightarrow> (Inl err, w)
               | Inr a \<Rightarrow> (Inr (off, buf, hdr, PBytes data, PStr guid, a ! 0), w)))"

definition kern_get_EFI_variable_full ::
  "env \<Rightarrow> helper \<Rightarrow> string \<Rightarrow> string \<Rightarrow> world \<Rightarrow> (pyerr + efi_tuple) \<times> world" where
  "kern_get_EFI_variable_full e h name guid w =
     (let off = 0; buf = []; hdr = 0; attr = 0;
          namelen = length name;
          header_size = 52;
          data_size = header_size + int namelen
      in case guid_fields guid of
           Inl err \<Rightarrow> (Inl err, w)
         | Inr gs \<Rightarrow>
         (case pack_I_s (data_size # gs @ [int namelen]) [(namelen, PBytes (encode name))] of
           Inl err \<Rightarrow> (Inl err, w)
         | Inr in_buf \<Rightarrow>
         (case ioctl_array e h IOCTL_GET_EFIVAR in_buf w of
           (Inl err, w1) \<Rightarrow> (Inl err, w1)
         | (Inr buffer, w1) \<Rightarrow>
         (case unpack_uints 4 2 (py_slice None (Some 8) buffer) of
           Inl err \<Rightarrow> (Inl err, w1)
         | Inr r \<Rightarrow>
             (let new_size = r ! 0; status = r ! 1
              in if status = 0x5 then
                   (let data_size2 = new_size + header_size + int namelen
                    in case pack_I_s (data_size2 # gs @ [int namelen])
                              [(namelen + nat new_size, PBytes (encode name))] of
                         Inl err \<Rightarrow> (Inl err, w1)
                       | Inr in_buf2 \<Rightarrow>
                       (case ioctl_array e h IOCTL_GET_EFIVAR in_buf2 w1 of
                         (Inl err, w2) \<Rightarrow>
                           (if err = IOError
                            then (Inr (off, buf, hdr, PNone, PStr guid, attr),
                                  w2\<lparr>trace := trace w2 @ [LogDebug DbgIOErrorGetVar]\<rparr>)
                            else (Inl err, w2))
                       | (Inr buffer2, w2) \<Rightarrow>
                       (case unpack_uints 4 2 (py_slice None (Some 8) buffer2) of
                         Inl err \<Rightarrow> (Inl err, w2)
                       | Inr r2 \<Rightarrow>
                           get_EFI_variable_result guid data_size2 buffer2 (r2 ! 0) (r2 ! 1) w2)))
                 else get_EFI_variable_result guid data_size buffer new_size status w1)))))"

definition kern_get_EFI_variable ::
  "env \<Rightarrow> helper \<Rightarrow> string \<Rightarrow> string \<Rightarrow> world \<Rightarrow> (pyerr + pyval) \<times> world" where
  "kern_get_EFI_variable e h name guid w =
     (case kern_get_EFI_variable_full e h name guid w of
        (Inl err, w') \<Rightarrow> (Inl err, w')
      | (Inr (off, buf, hdr, data, g, attr), w') \<Rightarrow> (Inr data, w'))"

text \<open>Truth value and \<^verbatim>\<open>len\<close> of the values a caller may pass as payload.\<close>

fun truthy :: "pyval \<Rightarrow> bool" where
  "truthy PNone = False"
| "truthy (PInt i) = (i \<noteq> 0)"
| "truthy (PBytes b) = (b \<noteq> [])"
| "truthy (PStr s) = (s \<noteq> [])"

fun py_len :: "pyval \<Rightarrow> pyerr + nat" where
  "py_len (PBytes b) = Inr (length b)"
| "py_len (PStr s) = Inr (length s)"
| "py_len _ = Inl TypeError"

definition kern_set_EFI_variable ::
  "env \<Rightarrow> helper \<Rightarrow> string \<Rightarrow> string \<Rightarrow> pyval \<Rightarrow> int \<Rightarrow> world \<Rightarrow> (pyerr + int) \<times> world" where
  "kern_set_EFI_variable e h name guid val attr w =
     (let header_size = 60;
          namelen = length name
      in case (if truthy val then map_sum id (\<lambda>n. (n, val)) (py_len val)
               else Inr (0, PBytes [0x0])) of
           Inl err \<Rightarrow> (Inl err, w)
         | Inr (datalen, val') \<Rightarrow>
         (let data_size = header_size + int namelen + int datalen
          in case guid_fields guid of
               Inl err \<Rightarrow> (Inl err, w)
             | Inr gs \<Rightarrow>
             (case pack_I_s (data_size # gs @ [attr, int namelen, int datalen])
                     [(namelen, PBytes (encode name)), (datalen, val')] of
               Inl err \<Rightarrow> (Inl err, w)
             | Inr in_buf \<Rightarrow>
             (case ioctl_array e h IOCTL_SET_EFIVAR in_buf w of
               (Inl err, w1) \<Rightarrow> (Inl err, w1)
             | (Inr buffer, w1) \<Rightarrow>
             (case unpack_uints 4 2 (py_slice None (Some 8) buffer) of
               Inl err \<Rightarrow> (Inl err, w1)
             | Inr r \<Rightarrow>
                 (let status = r ! 1
                  in if status \<noteq> 0
                     then (Inr status, w1\<lparr>trace := trace w1 @ [LogDebug (DbgSetFailed status)]\<rparr>)
                     else (Inr status, w1\<lparr>trace := trace w1 @ [Remount]\<rparr>)))))))"

definition delete_EFI_variable ::
  "env \<Rightarrow> helper \<Rightarrow> string \<Rightarrow> string \<Rightarrow> world \<Rightarrow> (pyerr + int) \<times> world" where
  "delete_EFI_variable e h name guid w = kern_set_EFI_variable e h name guid (PStr []) 0x7 w"

definition set_EFI_variable ::
  "env \<Rightarrow> helper \<Rightarrow> string \<Rightarrow> string \<Rightarrow> pyval \<Rightarrow> int \<Rightarrow> pyval \<Rightarrow> world \<Rightarrow> (pyerr + int) \<times> world" where
  "set_EFI_variable e h name guid data datasize attrs w =
     kern_set_EFI_variable e h name guid data 0x7 w"

text \<open>\<^verbatim>\<open>kern_list_EFI_variables\<close>: the loop over the directory entries, what follows
  \<^verbatim>\<open>os.listdir\<close> (which may raise), and the function itself. The dictionary is a map
  from names to lists of result tuples.\<close>

fun list_loop ::
  "env \<Rightarrow> helper \<Rightarrow> string list \<Rightarrow> (string \<rightharpoonup> efi_tuple list) \<Rightarrow> world
     \<Rightarrow> (pyerr + (string \<rightharpoonup> efi_tuple list)) \<times> world" where
  "list_loop e h [] variables w = (Inr variables, w)"
| "list_loop e h (v # vs) variables w =
     (let name = py_slice None (Some (- 37)) v;
          guid = py_slice (Some (int (length name) + 1)) None v
      in if name \<noteq> [] then
           (case kern_get_EFI_variable_full e h name guid w of
              (Inl err, w') \<Rightarrow> (Inl err, w')
            | (Inr var, w') \<Rightarrow> list_loop e h vs (variables(name \<mapsto> [var])) w')
         else list_loop e h vs variables w)"

definition list_dir ::
  "env \<Rightarrow> helper \<Rightarrow> string list option \<Rightarrow> world
     \<Rightarrow> (pyerr + (string \<rightharpoonup> efi_tuple list) option) \<times> world" where
  "list_dir e h listing w =
     (case listing of
        None \<Rightarrow> (Inr None, w\<lparr>trace := trace w @ [LogDebug DbgListFailed]\<rparr>)
      | Some varlist \<Rightarrow>
          (case list_loop e h varlist Map.empty w of
             (Inl err, w') \<Rightarrow> (Inl err, w')
           | (Inr variables, w') \<Rightarrow> (Inr (Some variables), w')))"

definition kern_list_EFI_variables ::
  "env \<Rightarrow> helper \<Rightarrow> world \<Rightarrow> (pyerr + (string \<rightharpoonup> efi_tuple list) option) \<times> world" where
  "kern_list_EFI_variables e h w =
     (if isdir_efivars e then list_dir e h (listdir_efivars e) w
      else if isdir_vars e then list_dir e h (listdir_vars e) w
      else (Inr None, w))"

section \<open>What the statements speak about\<close>

text \<open>The request buffers of the control calls of a trace, in the order they were issued.\<close>

definition requests :: "event list \<Rightarrow> byte list list" where
  "requests t = concat (map (\<lambda>ev. case ev of Ioctl c b \<Rightarrow> [b] | _ \<Rightarrow> []) t)"

text \<open>A per-core operation that pins to \<open>tid\<close> and then issues the opcode \<open>nr\<close> with the
  words \<open>ws\<close>: the pin is requested first; the control call follows when the words can be
  packed, and its request unpacks to \<open>ws\<close> again.\<close>

definition pinned_call :: "helper \<Rightarrow> int \<Rightarrow> int \<Rightarrow> int \<Rightarrow> int list \<Rightarrow> world \<Rightarrow> world \<Rightarrow> bool" where
  "pinned_call h b tid nr ws w w' =
     (case pack_words h ws of
        Inl _ \<Rightarrow> trace w' = trace w @ [SchedSetaffinity tid]
      | Inr req \<Rightarrow>
          trace w' = trace w @ [SchedSetaffinity tid, Ioctl (b + nr) req]
          \<and> unpack_words h (length ws) req = Inr ws)"

text \<open>What LIST does with its directory, in the words of the specification: every
  entry that leaves a name when its last 37 characters are taken away is split into that
  name and its last 36 characters, and each such pair triggers a GET, in the order of
  the directory; the result of the GET is stored under the name.\<close>

definition entry_split :: "string \<Rightarrow> string \<times> string" where
  "entry_split v = (take (length v - 37) v, drop (length v - 36) v)"

fun get_each ::
  "env \<Rightarrow> helper \<Rightarrow> (string \<times> string) list \<Rightarrow> (string \<rightharpoonup> efi_tuple list) \<Rightarrow> world
     \<Rightarrow> (pyerr + (string \<rightharpoonup> efi_tuple list)) \<times> world" where
  "get_each e h [] variables w = (Inr variables, w)"
| "get_each e h ((name, guid) # ps) variables w =
     (case kern_get_EFI_variable_full e h name guid w of
        (Inl err, w') \<Rightarrow> (Inl err, w')
      | (Inr var, w') \<Rightarrow> get_each e h ps (variables(name \<mapsto> [var])) w')"

text \<open>The canonical form of a GUID string, as the specification has it: 36 characters,
  dashes at the positions 8, 13, 18 and 23, hexadecimal digits elsewhere; and its eleven
  fields of 8, 4, 4, 2, 2, 2, 2, 2, 2, 2, 2 digits, each given by offset and length.\<close>

definition guid_segments :: "(nat \<times> nat) list" where
  "guid_segments =
     [(0, 8), (9, 4), (14, 4), (19, 2), (21, 2), (24, 2), (26, 2), (28, 2), (30, 2), (32, 2), (34, 2)]"

definition canonical_guid :: "string \<Rightarrow> bool" where
  "canonical_guid g =
     (length g = 36 \<and>
      list_all (\<lambda>i. if i \<in> {8, 13, 18, 23} then g ! i = CHR ''-'' else hexdigit (g ! i) \<noteq> None)
        [0..<36])"

definition guid_ints :: "string \<Rightarrow> int list" where
  "guid_ints g = map (\<lambda>(off, n). int (hexval (take n (drop off g)))) guid_segments"

text \<open>The request of GET for a data area of \<open>n\<close> bytes (thirteen words, then the
  \<^verbatim>\<open>s\<close> field: the encoded name cut or zero-padded to the length of the name plus
  \<open>n\<close>), and the request of SET for the value \<open>v\<close> (fifteen words, the encoded name
  cut to the length of the name, the value).\<close>

definition get_request :: "string \<Rightarrow> string \<Rightarrow> nat \<Rightarrow> byte list" where
  "get_request name guid n =
     concat (map (\<lambda>v. le_bytes 4 (nat v))
       ((int n + 52 + int (length name)) # guid_ints guid @ [int (length name)]))
     @ take (length name + n) (encode name)
     @ replicate (length name + n - length (encode name)) 0"

definition set_request :: "string \<Rightarrow> string \<Rightarrow> int \<Rightarrow> byte list \<Rightarrow> byte list" where
  "set_request name guid attr v =
     concat (map (\<lambda>v. le_bytes 4 (nat v))
       ((60 + int (length name) + int (length v)) # guid_ints guid
          @ [attr, int (length name), int (length v)]))
     @ take (length name) (encode name) @ v"

section \<open>Sample sessions\<close>

text \<open>A helper before \<^verbatim>\<open>init\<close>, one after a successful \<^verbatim>\<open>init\<close> on a 64-bit
  process, an empty world, and environments that differ in the driver only.\<close>

definition fresh :: helper where
  "fresh = \<lparr>pack = None, dev_fh = False, driver_loaded = False, ioctl_base = None\<rparr>"

definition h64 :: helper where
  "h64 = \<lparr>pack = Some Q, dev_fh = True, driver_loaded = True, ioctl_base = Some 0xC0084300\<rparr>"

definition w0 :: world where
  "w0 = \<lparr>trace = [], fpos = 0\<rparr>"

definition env_with :: "(event list \<Rightarrow> int \<Rightarrow> byte list \<Rightarrow> byte list option) \<Rightarrow> env" where
  "env_with drv =
     \<lparr>maxsize = 2 ^ 63 - 1, open_device = True, fcntl_ioctl = drv,
      sched_setaffinity = (\<lambda>_. True), fh_seek = (\<lambda>_. None), fh_read = (\<lambda>_ _ _. []),
      isdir_efivars = False, listdir_efivars = None, isdir_vars = False, listdir_vars = None\<rparr>"

text \<open>Drivers: one that echoes the request, one that answers a port read with the word
  \<open>0x1234ABCD\<close> in the value field, one whose every control call fails.\<close>

definition env_echo :: env where
  "env_echo = env_with (\<lambda>t c b. Some b)"

definition env_io :: env where
  "env_io = env_with (\<lambda>t c b. Some (take 16 b @ le_bytes 8 0x1234ABCD))"


text \<open>Drivers for GET and SET, which answer with a size and a status in the first two
  32-bit words: always "buffer too small, 4 bytes needed"; success with a size of 1000;
  the first of these to the first request and the second to any later one; "buffer too
  small" with the largest size a 32-bit word can report; and "not found".\<close>

definition reply_words :: "int \<Rightarrow> int \<Rightarrow> byte list" where
  "reply_words a b = le_bytes 4 (nat a) @ le_bytes 4 (nat b)"

definition env_too_small :: env where
  "env_too_small = env_with (\<lambda>t c b. Some (reply_words 4 5))"

definition env_oversized :: env where
  "env_oversized = env_with (\<lambda>t c b. Some (reply_words 1000 0))"

definition env_grow :: env where
  "env_grow = env_with (\<lambda>t c b. if requests t = [] then Some (reply_words 4 5)
                                  else Some (reply_words 1000 0))"


definition env_not_found :: env where
  "env_not_found = env_with (\<lambda>t c b. Some (reply_words 0 14))"

text \<open>The same "not found" driver under a variable filesystem with one entry.\<close>

definition env_list :: env where
  "env_list = env_not_found
     \<lparr>isdir_efivars := True,
      listdir_efivars := Some [''MyVar-8be4df61-93ca-11d2-aa0d-00e098032b8c'']\<rparr>"


text \<open>The global-variable GUID, and the requests of two sample calls.\<close>

definition sample_guid :: string where
  "sample_guid = ''8be4df61-93ca-11d2-aa0d-00e098032b8c''"

definition smi_request :: "byte list" where
  "smi_request = concat (map (\<lambda>v. le_bytes 8 (nat v)) [0x1F, 0, 0, 0, 0, 0, 0])"

definition msr_request :: "byte list" where
  "msr_request = concat (map (\<lambda>v. le_bytes 8 (nat v)) [2, 0x1B, 0, 0])"

section \<open>Evaluation lemmas\<close>

lemma le_bytes_numeral [simp]:
  "le_bytes (numeral k) v = of_nat (v mod 256) # le_bytes (pred_numeral k) (v div 256)"
  by (simp only: numeral_eq_Suc [of k] le_bytes.simps)

lemma unpack_list_numeral [simp]:
  "unpack_list n (numeral k) buf =
     int (le_val (take n buf)) # unpack_list n (pred_numeral k) (drop n buf)"
  by (simp only: numeral_eq_Suc [of k] unpack_list.simps)

lemma env_with_sel [simp]:
  "fcntl_ioctl (env_with drv) = drv" "maxsize (env_with drv) = 2 ^ 63 - 1"
  "open_device (env_with drv)" "sched_setaffinity (env_with drv) t"
  by (simp_all add: env_with_def)

lemma h64_sel [simp]:
  "pack h64 = Some Q" "dev_fh h64" "ioctl_base h64 = Some 0xC0084300"
  by (simp_all add: h64_def)

section \<open>The control-code base\<close>

text \<open>Without \<^verbatim>\<open>start_driver\<close> no device is opened and no base is stored; a control
  call on such a helper raises before it reaches the driver.\<close>

lemma init_without_driver:
  "init e False h = (Inr (), h\<lparr>pack := Some (if maxsize e > 2 ^ 32 then Q else I)\<rparr>)"
  by (simp add: init_def Let_def)

lemma ioctl_without_base:
  "ioctl_base h = None \<Longrightarrow> ioctl e h nr args w = (Inl AttributeError, w)"
  by (simp add: ioctl_def)

text \<open>
  Claim C1. When \<^verbatim>\<open>init\<close> opens the device, it stores as control-code base the value
  \<open>(3 << 30) | (ord('C') << 8) | (width << 16)\<close>, where the width is 8 when
  \<^verbatim>\<open>sys.maxsize > 2**32\<close> and 4 otherwise, that is \<open>0xC0084300\<close> or \<open>0xC0044300\<close>.
  Computing it again, on any helper with the same word format, gives the same value, and
  every control call of that helper, for any opcode \<open>nr\<close>, is issued under the
  identifier base + nr.
\<close>

theorem ioctl_base_layout:
  assumes "init e True h = (Inr (), h')"
  shows "\<exists>b. ioctl_base h' = Some b
           \<and> b = (push_bit 30 3 OR push_bit 8 (of_char CHR ''C'')
                    OR push_bit 16 (if maxsize e > 2 ^ 32 then 8 else 4))
           \<and> b = (if maxsize e > 2 ^ 32 then 0xC0084300 else 0xC0044300)
           \<and> (\<forall>h2. pack h2 = pack h' \<longrightarrow> compute_ioctlbase h2 CHR ''C'' = Inr b)
           \<and> (\<forall>nr args w. trace (snd (ioctl e h' nr args w)) = trace w @ [Ioctl (b + nr) args])"
  using assms
  by (auto simp: init_def compute_ioctlbase_def ioctl_def Let_def split: if_splits option.splits)

theorem ioctl_base_layout_witness:
  "init env_echo True fresh = (Inr (), h64) \<and> ioctl_base h64 = Some 0xC0084300
   \<and> trace (snd (ioctl env_echo h64 5 [1, 2] w0)) = [Ioctl 0xC0084305 [1, 2]]"
proof -
  have i: "init env_echo True fresh = (Inr (), h64)"
    by (simp add: init_def env_echo_def fresh_def h64_def compute_ioctlbase_def)
  from ioctl_base_layout [OF i] obtain b where
    b: "ioctl_base h64 = Some b" "b = (if maxsize env_echo > 2 ^ 32 then 0xC0084300 else 0xC0044300)"
    and t: "\<forall>nr args w. trace (snd (ioctl env_echo h64 nr args w)) = trace w @ [Ioctl (b + nr) args]"
    by blast
  from b(2) have "b = 0xC0084300" by (simp add: env_echo_def)
  with b(1) t i show ?thesis by (simp add: w0_def)
qed

section \<open>Writing physical memory without a value\<close>

text \<open>
  Claim C10. \<^verbatim>\<open>write_phys_mem\<close> called with \<^verbatim>\<open>newval = None\<close> returns \<^verbatim>\<open>None\<close> and
  leaves the world as it was: no seek, no write, the position of the handle unchanged,
  whatever the address, the length and the state of the helper.
\<close>

theorem write_phys_mem_none:
  "write_phys_mem e h phys_address_hi phys_address_lo len None w = (Inr PNone, w)"
  by (simp add: write_phys_mem_def)

section \<open>Masking of port reads\<close>

lemma io_request:
  "sz \<in> {1, 2, 4} \<Longrightarrow> pack_words h64 [0x80, sz, 0]
     = Inr ([0x80, 0, 0, 0, 0, 0, 0, 0] @ [of_nat (nat sz), 0, 0, 0, 0, 0, 0, 0] @ [0, 0, 0, 0, 0, 0, 0, 0])"
  by (auto simp: pack_words_def pack_uint_def)

lemma io_reply:
  "unpack_words h64 3 (take 16 (a @ b @ c) @ le_bytes 8 0x1234ABCD) = Inr [x0, x1, 0x1234ABCD]"
  if "length a = 8" "length b = 8" "x0 = int (le_val a)" "x1 = int (le_val b)"
  using that by (simp add: unpack_words_def unpack_uints_def)

text \<open>
  Claim C4. A port read of size 1, 2 or 4 returns the word at index 2 of the reply,
  masked to that many bytes; for the reply word \<open>0x1234ABCD\<close> this is \<open>0xCD\<close>,
  \<open>0xABCD\<close> and \<open>0x1234ABCD\<close>.
\<close>

theorem read_io_port_masks:
  assumes "pack_words h [io_port, sz, 0] = Inr in_buf"
      and "ioctl e h IOCTL_RDIO in_buf w = (Inr out_buf, w')"
      and "unpack_words h 3 out_buf = Inr x"
      and "sz \<in> {1, 2, 4}"
  shows "read_io_port e h io_port sz w = (Inr ((x ! 2) AND (2 ^ (8 * nat sz) - 1)), w')
         \<and> (x ! 2 = 0x1234ABCD \<longrightarrow>
              fst (read_io_port e h io_port sz w)
                = Inr (if sz = 1 then 0xCD else if sz = 2 then 0xABCD else 0x1234ABCD))"
  using assms by (auto simp: read_io_port_def)

theorem read_io_port_masks_witness:
  "fst (read_io_port env_io h64 0x80 1 w0) = Inr 0xCD
   \<and> fst (read_io_port env_io h64 0x80 2 w0) = Inr 0xABCD
   \<and> fst (read_io_port env_io h64 0x80 4 w0) = Inr 0x1234ABCD"
proof -
  have r: "fst (read_io_port env_io h64 0x80 sz w0)
             = Inr (if sz = 1 then 0xCD else if sz = 2 then 0xABCD else 0x1234ABCD)"
    if sz: "sz \<in> {1, 2, 4}" for sz
  proof -
    define req :: "byte list" where
      "req = [0x80, 0, 0, 0, 0, 0, 0, 0] @ [of_nat (nat sz), 0, 0, 0, 0, 0, 0, 0] @ [0, 0, 0, 0, 0, 0, 0, 0]"
    have p: "pack_words h64 [0x80, sz, 0] = Inr req"
      unfolding req_def using sz by (rule io_request)
    have len: "length req = 24"
      by (simp add: req_def)
    have i: "ioctl env_io h64 IOCTL_RDIO req w0
               = (Inr (take 16 req @ le_bytes 8 0x1234ABCD),
                  w0\<lparr>trace := trace w0 @ [Ioctl (0xC0084300 + IOCTL_RDIO) req]\<rparr>)"
      by (simp add: ioctl_def env_io_def len)
    have u: "unpack_words h64 3 (take 16 req @ le_bytes 8 0x1234ABCD) = Inr [0x80, sz, 0x1234ABCD]"
      unfolding req_def using sz by (intro io_reply) auto
    have "[0x80, sz, 0x1234ABCD] ! 2 = (0x1234ABCD :: int)" by simp
    with read_io_port_masks [OF p i u sz] show ?thesis by blast
  qed
  from r [of 1] r [of 2] r [of 4] show ?thesis by simp
qed

section \<open>Packing and unpacking are inverse\<close>

text \<open>
  A value that \<^verbatim>\<open>struct.pack\<close> accepts is read back unchanged from the bytes it produced.
\<close>

lemma length_le_bytes [simp]: "length (le_bytes n v) = n"
  by (induction n arbitrary: v) simp_all

lemma le_val_le_bytes: "v < 256 ^ n \<Longrightarrow> le_val (le_bytes n v) = v"
proof (induction n arbitrary: v)
  case 0
  then show ?case by simp
next
  case (Suc n)
  have "v div 256 < 256 ^ n"
    using Suc.prems by (simp add: less_mult_imp_div_less mult.commute)
  then have "le_val (le_bytes n (v div 256)) = v div 256"
    by (rule Suc.IH)
  moreover have "unat (of_nat (v mod 256) :: byte) = v mod 256"
    by (simp add: unat_of_nat)
  ultimately show ?case by simp
qed

lemma pack_uint_Inr:
  "pack_uint n v = Inr b \<longleftrightarrow> 0 \<le> v \<and> v < 2 ^ (8 * n) \<and> b = le_bytes n (nat v)"
  by (auto simp: pack_uint_def)

lemma le_val_pack_uint: "pack_uint n v = Inr b \<Longrightarrow> int (le_val b) = v \<and> length b = n"
proof -
  assume a: "pack_uint n v = Inr b"
  then have v: "0 \<le> v" "v < 2 ^ (8 * n)" and b: "b = le_bytes n (nat v)"
    by (simp_all add: pack_uint_Inr)
  have "(2::int) ^ (8 * n) = 256 ^ n" by (simp add: power_mult)
  with v have "nat v < 256 ^ n"
    by (metis nat_less_iff of_nat_numeral of_nat_power)
  then show ?thesis using b v by (simp add: le_val_le_bytes)
qed

lemma pack_uints_unpack_list:
  "pack_uints n vs = Inr req \<Longrightarrow> length req = n * length vs \<and> unpack_list n (length vs) req = vs"
proof (induction vs arbitrary: req)
  case Nil
  then show ?case by simp
next
  case (Cons v vs)
  from Cons.prems obtain b bs where
    b: "pack_uint n v = Inr b" and bs: "pack_uints n vs = Inr bs" and req: "req = b @ bs"
    by (auto split: sum.splits)
  from le_val_pack_uint [OF b] Cons.IH [OF bs] req show ?case by simp
qed

lemma pack_words_roundtrip:
  "pack_words h vs = Inr req \<Longrightarrow> unpack_words h (length vs) req = Inr vs"
  by (auto simp: pack_words_def unpack_words_def unpack_uints_def
           dest: pack_uints_unpack_list split: option.splits)

section \<open>Per-core operations\<close>

text \<open>
  Every per-core operation first asks for the affinity pin and then, when the request
  can be packed, issues exactly one control call; \<open>pinned_call\<close> says so for a
  given opcode and request tuple.
\<close>

lemma ioctl_trace:
  "ioctl_base h = Some b \<Longrightarrow> dev_fh h \<Longrightarrow>
   trace (snd (ioctl e h nr args w)) = trace w @ [Ioctl (b + nr) args]"
  by (simp add: ioctl_def Let_def split: option.splits)

lemma pinned_callI:
  assumes "ioctl_base h = Some b" "dev_fh h"
    and "\<And>err. pack_words h ws = Inl err \<Longrightarrow> w' = snd (set_affinity e tid w)"
    and "\<And>req. pack_words h ws = Inr req \<Longrightarrow>
            trace w' = trace (snd (ioctl e h nr req (snd (set_affinity e tid w))))"
  shows "pinned_call h b tid nr ws w w'"
proof (cases "pack_words h ws")
  case (Inl err)
  with assms(3) show ?thesis by (simp add: pinned_call_def set_affinity_def)
next
  case (Inr req)
  from assms(4) [OF Inr] ioctl_trace [OF assms(1,2)]
  have "trace w' = trace w @ [SchedSetaffinity tid, Ioctl (b + nr) req]"
    by (simp add: set_affinity_def)
  with Inr pack_words_roundtrip [OF Inr] show ?thesis by (simp add: pinned_call_def)
qed

lemma read_msr_pinned:
  "ioctl_base h = Some b \<Longrightarrow> dev_fh h \<Longrightarrow>
   pinned_call h b thread_id IOCTL_RDMSR [thread_id, msr_addr, 0, 0] w
     (snd (read_msr e h thread_id msr_addr w))"
  by (rule pinned_callI [where e = e])
     (auto simp: read_msr_def Let_def split: sum.splits prod.splits)

lemma write_msr_pinned:
  "ioctl_base h = Some b \<Longrightarrow> dev_fh h \<Longrightarrow>
   pinned_call h b thread_id IOCTL_WRMSR [thread_id, msr_addr, edx, eax] w
     (snd (write_msr e h thread_id msr_addr eax edx w))"
  by (rule pinned_callI [where e = e])
     (auto simp: write_msr_def Let_def split: sum.splits prod.splits)

lemma read_cr_pinned:
  "ioctl_base h = Some b \<Longrightarrow> dev_fh h \<Longrightarrow>
   pinned_call h b cpu_thread_id IOCTL_RDCR [cpu_thread_id, cr_number, 0] w
     (snd (read_cr e h cpu_thread_id cr_number w))"
  by (rule pinned_callI [where e = e])
     (auto simp: read_cr_def Let_def split: sum.splits prod.splits)

lemma write_cr_pinned:
  "ioctl_base h = Some b \<Longrightarrow> dev_fh h \<Longrightarrow>
   pinned_call h b cpu_thread_id IOCTL_WRCR [cpu_thread_id, cr_number, val] w
     (snd (write_cr e h cpu_thread_id cr_number val w))"
  by (rule pinned_callI [where e = e])
     (auto simp: write_cr_def Let_def split: sum.splits prod.splits)

lemma get_descriptor_table_pinned:
  "ioctl_base h = Some b \<Longrightarrow> dev_fh h \<Longrightarrow>
   pinned_call h b cpu_thread_id IOCTL_GET_CPU_DESCRIPTOR_TABLE
     [cpu_thread_id, desc_table_code, 0, 0, 0] w
     (snd (get_descriptor_table e h cpu_thread_id desc_table_code w))"
  by (rule pinned_callI [where e = e])
     (auto simp: get_descriptor_table_def Let_def split: sum.splits prod.splits)

lemma send_sw_smi_pinned:
  "ioctl_base h = Some b \<Longrightarrow> dev_fh h \<Longrightarrow>
   pinned_call h b cpu_thread_id IOCTL_SWSMI [SMI_code_data, rax, rbx, rcx, rdx, rsi, rdi] w
     (snd (send_sw_smi e h cpu_thread_id SMI_code_data rax rbx rcx rdx rsi rdi w))"
  by (rule pinned_callI [where e = e])
     (auto simp: send_sw_smi_def Let_def split: sum.splits prod.splits)

lemma pack_uints_ok:
  "list_all (\<lambda>v. 0 \<le> v \<and> v < 2 ^ (8 * n)) vs \<Longrightarrow>
   pack_uints n vs = Inr (concat (map (\<lambda>v. le_bytes n (nat v)) vs))"
  by (induction vs) (simp_all add: pack_uint_def)

text \<open>
  Claim C7, as stated, fails for \<^verbatim>\<open>send_sw_smi\<close>: pinned to thread 3 with SMI code
  \<open>0x1F\<close>, the request tuple starts with \<open>0x1F\<close>; the thread identifier is not in
  the request at all.
\<close>

theorem send_sw_smi_first_word_counterexample:
  "trace (snd (send_sw_smi env_echo h64 3 0x1F 0 0 0 0 0 0 w0))
     = [SchedSetaffinity 3, Ioctl 0xC008430A smi_request]
   \<and> unpack_words h64 7 smi_request = Inr [0x1F, 0, 0, 0, 0, 0, 0]
   \<and> [0x1F, 0, 0, 0, 0, 0, 0] ! 0 \<noteq> (3 :: int)"
proof -
  have p: "pack_words h64 [0x1F, 0, 0, 0, 0, 0, 0] = Inr smi_request"
    by (simp add: pack_words_def pack_uint_def smi_request_def)
  have "trace (snd (send_sw_smi env_echo h64 3 0x1F 0 0 0 0 0 0 w0))
          = [SchedSetaffinity 3, Ioctl 0xC008430A smi_request]"
    by (simp add: send_sw_smi_def set_affinity_def p ioctl_def env_echo_def w0_def
          IOCTL_SWSMI_def Let_def split: sum.splits)
  moreover from pack_words_roundtrip [OF p]
  have "unpack_words h64 7 smi_request = Inr [0x1F, 0, 0, 0, 0, 0, 0]"
    by (simp add: eval_nat_numeral)
  ultimately show ?thesis by simp
qed

text \<open>
  Claim C7, amended. On a helper with an open device, \<^verbatim>\<open>read_msr\<close>, \<^verbatim>\<open>write_msr\<close>,
  \<^verbatim>\<open>read_cr\<close>, \<^verbatim>\<open>write_cr\<close> and \<^verbatim>\<open>get_descriptor_table\<close> request the affinity
  pin to the given thread before the control call, and that thread identifier is the
  first word of the request tuple. \<^verbatim>\<open>send_sw_smi\<close> requests the same pin before its
  control call, but its request is the seven words SMI code, rax, rbx, rcx, rdx, rsi,
  rdi. When the tuple cannot be packed, the pin is all that happens.
\<close>

theorem per_core_pin_then_call:
  assumes "ioctl_base h = Some b" and "dev_fh h"
  shows "pinned_call h b tid IOCTL_RDMSR [tid, msr_addr, 0, 0] w
           (snd (read_msr e h tid msr_addr w))
       \<and> pinned_call h b tid IOCTL_WRMSR [tid, msr_addr, edx, eax] w
           (snd (write_msr e h tid msr_addr eax edx w))
       \<and> pinned_call h b tid IOCTL_RDCR [tid, cr_number, 0] w
           (snd (read_cr e h tid cr_number w))
       \<and> pinned_call h b tid IOCTL_WRCR [tid, cr_number, val] w
           (snd (write_cr e h tid cr_number val w))
       \<and> pinned_call h b tid IOCTL_GET_CPU_DESCRIPTOR_TABLE [tid, desc_table_code, 0, 0, 0] w
           (snd (get_descriptor_table e h tid desc_table_code w))
       \<and> pinned_call h b tid IOCTL_SWSMI [SMI_code_data, rax, rbx, rcx, rdx, rsi, rdi] w
           (snd (send_sw_smi e h tid SMI_code_data rax rbx rcx rdx rsi rdi w))"
  using assms
  by (intro conjI read_msr_pinned write_msr_pinned read_cr_pinned write_cr_pinned
        get_descriptor_table_pinned send_sw_smi_pinned)

theorem per_core_pin_then_call_witness:
  "ioctl_base h64 = Some 0xC0084300 \<and> dev_fh h64
   \<and> trace (snd (read_msr env_echo h64 2 0x1B w0))
       = [SchedSetaffinity 2, Ioctl 0xC0084305 msr_request]
   \<and> unpack_words h64 4 msr_request = Inr [2, 0x1B, 0, 0]"
proof -
  have p: "pack_words h64 [2, 0x1B, 0, 0] = Inr msr_request"
    by (simp add: pack_words_def pack_uint_def msr_request_def)
  have b: "ioctl_base h64 = Some 0xC0084300" and d: "dev_fh h64" by simp_all
  from per_core_pin_then_call [OF b d, of 2 "0x1B" w0 env_echo]
  have "pinned_call h64 0xC0084300 2 IOCTL_RDMSR [2, 0x1B, 0, 0] w0
          (snd (read_msr env_echo h64 2 0x1B w0))"
    by blast
  with p b d show ?thesis
    by (simp add: pinned_call_def w0_def IOCTL_RDMSR_def eval_nat_numeral)
qed

section \<open>Directory entries of the variable filesystem\<close>

text \<open>
  Slices with literal bounds are \<open>take\<close> and \<open>drop\<close>. An entry of at most 37
  characters has an empty name and is skipped by the loop.
\<close>

lemma slice_take: "py_slice None (Some (int k)) xs = take k xs"
  by (auto simp: py_slice_def py_index_def Let_def min_def)

lemma slice_drop: "py_slice (Some (int k)) None xs = drop k xs"
  by (auto simp: py_slice_def py_index_def Let_def min_def)

lemma slice_mid: "a \<le> b \<Longrightarrow> py_slice (Some (int a)) (Some (int b)) xs = take (b - a) (drop a xs)"
  by (auto simp: py_slice_def py_index_def Let_def min_def drop_take)

lemma slice_minus: "0 < k \<Longrightarrow> py_slice None (Some (- int k)) xs = take (length xs - k) xs"
  by (auto simp: py_slice_def py_index_def Let_def nat_diff_distrib')

lemma entry_name_guid:
  "py_slice None (Some (- 37)) v = take (length v - 37) v"
  "37 < length v \<Longrightarrow>
   py_slice (Some (int (length (take (length v - 37) v)) + 1)) None v = drop (length v - 36) v"
proof -
  show "py_slice None (Some (- 37)) v = take (length v - 37) v"
    using slice_minus [of 37 v] by simp
  assume l: "37 < length v"
  then have "int (length (take (length v - 37) v)) + 1 = int (length v - 36)" by simp
  then show "py_slice (Some (int (length (take (length v - 37) v)) + 1)) None v = drop (length v - 36) v"
    by (simp only: slice_drop)
qed

lemma list_loop_skip:
  "length v \<le> 37 \<Longrightarrow> list_loop e h (v # vs) variables w = list_loop e h vs variables w"
  by (simp add: entry_name_guid(1) Let_def)

text \<open>
  One step of the loop on an entry of more than 37 characters: GET is asked for the name
  made of all but the last 37 characters and for the GUID made of the last 36 characters;
  the entry is name, one separating character, GUID.
\<close>

lemma list_loop_split:
  assumes "37 < length v"
  shows "list_loop e h (v # vs) variables w =
           (case kern_get_EFI_variable_full e h (take (length v - 37) v) (drop (length v - 36) v) w of
              (Inl err, w') \<Rightarrow> (Inl err, w')
            | (Inr var, w') \<Rightarrow>
                list_loop e h vs (variables(take (length v - 37) v \<mapsto> [var])) w')
         \<and> v = take (length v - 37) v @ v ! (length v - 37) # drop (length v - 36) v
         \<and> length (drop (length v - 36) v) = 36"
proof -
  have n: "take (length v - 37) v \<noteq> []" using assms by auto
  have "v = take (length v - 37) v @ drop (length v - 37) v" by simp
  also have "drop (length v - 37) v = v ! (length v - 37) # drop (Suc (length v - 37)) v"
    using assms by (intro Cons_nth_drop_Suc [symmetric]) simp
  also have "Suc (length v - 37) = length v - 36" using assms by simp
  finally have s: "v = take (length v - 37) v @ v ! (length v - 37) # drop (length v - 36) v" .
  have l: "length (drop (length v - 36) v) = 36" using assms by simp
  have "list_loop e h (v # vs) variables w =
           (case kern_get_EFI_variable_full e h (take (length v - 37) v) (drop (length v - 36) v) w of
              (Inl err, w') \<Rightarrow> (Inl err, w')
            | (Inr var, w') \<Rightarrow>
                list_loop e h vs (variables(take (length v - 37) v \<mapsto> [var])) w')"
    using n by (simp add: entry_name_guid(1) entry_name_guid(2) [OF assms] Let_def del: length_take)
  with s l show ?thesis by blast
qed

section \<open>Parsing canonical GUID strings\<close>

text \<open>
  A string of hexadecimal digits is read by \<^verbatim>\<open>int(s, 16)\<close> as its value, and eight
  digits fit an unsigned 32-bit field. In a canonical GUID every segment between the
  dashes is such a string, so the eleven slices of the source give the eleven values of
  \<open>guid_ints\<close>.
\<close>

lemma hexdigit_chars:
  assumes "hexdigit c \<noteq> None"
  shows "\<not> isspace c" "c \<noteq> CHR ''+''" "c \<noteq> CHR ''-''" "c \<noteq> CHR ''_''"
    "c \<noteq> CHR ''x''" "c \<noteq> CHR ''X''" "digit_or_underscore c"
  using assms
  by (auto simp: hexdigit_def isspace_def digit_or_underscore_def Let_def split: if_splits)

lemma no_adjacent_underscores:
  "list_all (\<lambda>c. c \<noteq> CHR ''_'') s \<Longrightarrow> \<not> adjacent_underscores s"
  by (induction s rule: adjacent_underscores.induct) simp_all

lemma py_int16_hex:
  assumes ne: "s \<noteq> []" and hex: "list_all (\<lambda>c. hexdigit c \<noteq> None) s"
  shows "py_int16 s = Inr (int (hexval s))"
proof -
  from ne obtain c cs where s: "s = c # cs" by (cases s) auto
  from hex have all: "\<And>x. x \<in> set s \<Longrightarrow> hexdigit x \<noteq> None"
    by (simp add: list_all_iff)
  have c: "hexdigit c \<noteq> None" using all s by simp
  have s1: "dropWhile isspace s = s"
    using hexdigit_chars(1) [OF c] s by simp
  have s3: "(case s of
               c0 # cx # r \<Rightarrow>
                 if c0 = CHR ''0'' \<and> (cx = CHR ''x'' \<or> cx = CHR ''X'')
                 then (case r of u # r' \<Rightarrow> if u = CHR ''_'' then r' else r | [] \<Rightarrow> r)
                 else s
             | _ \<Rightarrow> s) = s"
  proof (cases cs)
    case Nil
    with s show ?thesis by simp
  next
    case (Cons cx r)
    with all s have "hexdigit cx \<noteq> None" by simp
    from hexdigit_chars(5,6) [OF this] s Cons show ?thesis by simp
  qed
  have run: "takeWhile digit_or_underscore s = s" "dropWhile digit_or_underscore s = []"
    using all hexdigit_chars(7) by (simp_all add: takeWhile_eq_all_conv)
  have nus: "list_all (\<lambda>c. c \<noteq> CHR ''_'') s"
    using all hexdigit_chars(4) by (auto simp: list_all_iff)
  then have filt: "filter (\<lambda>c. c \<noteq> CHR ''_'') s = s"
    by (simp add: list_all_iff)
  have hd: "hd s \<noteq> CHR ''_''" using hexdigit_chars(4) [OF c] s by simp
  have "last s \<in> set s" using ne by simp
  then have lst: "last s \<noteq> CHR ''_''" using all hexdigit_chars(4) by blast
  have sign: "c \<noteq> CHR ''+''" "c \<noteq> CHR ''-''" using hexdigit_chars(2,3) [OF c] by simp_all
  have s2: "(case s of c # r \<Rightarrow> if c = CHR ''+'' \<or> c = CHR ''-'' then r else s | [] \<Rightarrow> s) = s"
    using s sign by simp
  have neg: "(case s of c # x \<Rightarrow> c = CHR ''-'' | [] \<Rightarrow> False) = False"
    using s sign by simp
  show ?thesis
    unfolding py_int16_def Let_def s1 s2 neg s3 run filt
    using ne hd lst no_adjacent_underscores [OF nus] by simp
qed

lemma hexval_foldl_bound:
  "foldl (\<lambda>acc c. 16 * acc + (case hexdigit c of Some d \<Rightarrow> d | None \<Rightarrow> 0)) a s
     < (a + 1) * 16 ^ length s"
proof (induction s arbitrary: a)
  case Nil
  then show ?case by simp
next
  case (Cons c s)
  have d: "(case hexdigit c of Some d \<Rightarrow> d | None \<Rightarrow> 0) < 16"
    by (auto simp: hexdigit_def Let_def split: option.splits if_splits)
  let ?a = "16 * a + (case hexdigit c of Some d \<Rightarrow> d | None \<Rightarrow> 0)"
  have "foldl (\<lambda>acc c. 16 * acc + (case hexdigit c of Some d \<Rightarrow> d | None \<Rightarrow> 0)) ?a s
          < (?a + 1) * 16 ^ length s"
    by (rule Cons.IH)
  also have "\<dots> \<le> (16 * (a + 1)) * 16 ^ length s"
    using d by (intro mult_right_mono) simp_all
  finally show ?case by (simp add: algebra_simps)
qed

lemma hexval_bound: "hexval s < 16 ^ length s"
  using hexval_foldl_bound [of 0 s] by (simp add: hexval_def)

lemma hexval_uint32: "length s \<le> 8 \<Longrightarrow> int (hexval s) < 2 ^ 32"
proof -
  assume "length s \<le> 8"
  then have "(16::nat) ^ length s \<le> 16 ^ 8" by (intro power_increasing) simp_all
  with hexval_bound [of s] have "hexval s < 16 ^ 8" by simp
  then show ?thesis by simp
qed

lemma canonical_nth:
  assumes "canonical_guid g" and "i < 36" and "i \<notin> {8, 13, 18, 23}"
  shows "hexdigit (g ! i) \<noteq> None"
proof -
  from assms(1) have "\<forall>i\<in>set [0..<36].
      if i \<in> {8, 13, 18, 23} then g ! i = CHR ''-'' else hexdigit (g ! i) \<noteq> None"
    unfolding canonical_guid_def list_all_iff by blast
  with assms(2,3) show ?thesis by auto
qed

lemma segment_hex:
  assumes g: "canonical_guid g" and seg: "(off, n) \<in> set guid_segments"
  shows "list_all (\<lambda>c. hexdigit c \<noteq> None) (take n (drop off g))"
    and "take n (drop off g) \<noteq> []" and "length (take n (drop off g)) \<le> 8"
proof -
  from g have len: "length g = 36" by (simp add: canonical_guid_def)
  have bounds: "off + n \<le> 36" "0 < n" "n \<le> 8"
    and nodash: "\<And>i. i < n \<Longrightarrow> off + i \<notin> {8, 13, 18, 23}"
    using seg by (auto simp: guid_segments_def)
  show "list_all (\<lambda>c. hexdigit c \<noteq> None) (take n (drop off g))"
    unfolding list_all_length
  proof (intro allI impI)
    fix i assume "i < length (take n (drop off g))"
    with len bounds have i: "i < n" "off + i < 36" by simp_all
    then have "take n (drop off g) ! i = g ! (off + i)" using len by simp
    with canonical_nth [OF g i(2) nodash [OF i(1)]]
    show "hexdigit (take n (drop off g) ! i) \<noteq> None" by simp
  qed
  show "take n (drop off g) \<noteq> []" using len bounds by auto
  show "length (take n (drop off g)) \<le> 8" using bounds by simp
qed

lemma collect_py_int16:
  assumes "\<And>s. s \<in> set ss \<Longrightarrow> s \<noteq> [] \<and> list_all (\<lambda>c. hexdigit c \<noteq> None) s"
  shows "collect (map py_int16 ss) = Inr (map (\<lambda>s. int (hexval s)) ss)"
  using assms by (induction ss) (simp_all add: py_int16_hex)

lemma guid_slices_segments:
  assumes "length g = 36"
  shows "map (\<lambda>(lo, hi). py_slice lo hi g) guid_slices = map (\<lambda>(off, n). take n (drop off g)) guid_segments"
proof -
  have a: "py_slice None (Some 8) g = take 8 (drop 0 g)"
    using slice_take [of 8 g] by simp
  have b: "py_slice (Some 34) None g = take 2 (drop 34 g)"
    using slice_drop [of 34 g] assms by simp
  have c: "py_slice (Some 9) (Some 13) g = take 4 (drop 9 g)"
    "py_slice (Some 14) (Some 18) g = take 4 (drop 14 g)"
    "py_slice (Some 19) (Some 21) g = take 2 (drop 19 g)"
    "py_slice (Some 21) (Some 23) g = take 2 (drop 21 g)"
    "py_slice (Some 24) (Some 26) g = take 2 (drop 24 g)"
    "py_slice (Some 26) (Some 28) g = take 2 (drop 26 g)"
    "py_slice (Some 28) (Some 30) g = take 2 (drop 28 g)"
    "py_slice (Some 30) (Some 32) g = take 2 (drop 30 g)"
    "py_slice (Some 32) (Some 34) g = take 2 (drop 32 g)"
    using slice_mid [of 9 13 g] slice_mid [of 14 18 g] slice_mid [of 19 21 g]
      slice_mid [of 21 23 g] slice_mid [of 24 26 g] slice_mid [of 26 28 g]
      slice_mid [of 28 30 g] slice_mid [of 30 32 g] slice_mid [of 32 34 g]
    by simp_all
  show ?thesis
    unfolding guid_slices_def guid_segments_def by (simp only: list.map prod.case a b c)
qed

lemma guid_fields_canonical:
  assumes "canonical_guid g"
  shows "guid_fields g = Inr (guid_ints g)"
proof -
  from assms have len: "length g = 36" by (simp add: canonical_guid_def)
  have "guid_fields g = collect (map py_int16 (map (\<lambda>(lo, hi). py_slice lo hi g) guid_slices))"
    by (simp add: guid_fields_def comp_def case_prod_unfold)
  also have "\<dots> = collect (map py_int16 (map (\<lambda>(off, n). take n (drop off g)) guid_segments))"
    by (simp only: guid_slices_segments [OF len])
  also have "\<dots> = Inr (map (\<lambda>s. int (hexval s)) (map (\<lambda>(off, n). take n (drop off g)) guid_segments))"
    by (rule collect_py_int16) (use assms in \<open>auto dest: segment_hex\<close>)
  also have "\<dots> = Inr (guid_ints g)"
    by (simp add: guid_ints_def comp_def case_prod_unfold)
  finally show ?thesis .
qed

lemma guid_ints_range:
  assumes "canonical_guid g"
  shows "length (guid_ints g) = 11" and "list_all (\<lambda>v. 0 \<le> v \<and> v < 2 ^ 32) (guid_ints g)"
proof -
  show "length (guid_ints g) = 11" by (simp add: guid_ints_def guid_segments_def)
  show "list_all (\<lambda>v. 0 \<le> v \<and> v < 2 ^ 32) (guid_ints g)"
    unfolding guid_ints_def list_all_iff
    using segment_hex(3) [OF assms] hexval_uint32 by auto
qed

section \<open>The GET negotiation\<close>

text \<open>
  Facts about the buffers that are packed, the control call on a mutable buffer, and the
  shape of \<^verbatim>\<open>kern_get_EFI_variable_full\<close> once the probe has been answered.
\<close>

lemma requests_simps [simp]:
  "requests [] = []"
  "requests (Ioctl c b # t) = b # requests t"
  "requests (LogDebug d # t) = requests t"
  "requests (Remount # t) = requests t"
  "requests (t @ u) = requests t @ requests u"
  by (simp_all add: requests_def)

lemma pack_I_s_one:
  assumes "list_all (\<lambda>v. 0 \<le> v \<and> v < 2 ^ 32) ws"
  shows "pack_I_s ws [(n, PBytes b)]
           = Inr (concat (map (\<lambda>v. le_bytes 4 (nat v)) ws) @ take n b @ replicate (n - length b) 0)"
  using pack_uints_ok [of 4 ws] assms by (simp add: pack_I_s_def pack_s_def)





lemma ioctl_array_open:
  assumes "ioctl_base h = Some b" and "dev_fh h"
  shows "ioctl_array e h nr buf w =
           (case fcntl_ioctl e (trace w) (b + nr) buf of
              None \<Rightarrow> Inl IOError
            | Some r \<Rightarrow> Inr (take (length buf) r @ drop (length r) buf),
            w\<lparr>trace := trace w @ [Ioctl (b + nr) buf]\<rparr>)"
  using assms by (simp add: ioctl_array_def ioctl_def Let_def split: option.splits)



lemma kern_get_probe:
  assumes "guid_fields guid = Inr gs"
    and "pack_I_s ((52 + int (length name)) # gs @ [int (length name)])
           [(length name, PBytes (encode name))] = Inr in_buf"
    and "ioctl_array e h IOCTL_GET_EFIVAR in_buf w = (Inr buffer, w1)"
    and "unpack_uints 4 2 (py_slice None (Some 8) buffer) = Inr [N, st]"
  shows "kern_get_EFI_variable_full e h name guid w =
           (if st = 5 then
              (case pack_I_s ((N + 52 + int (length name)) # gs @ [int (length name)])
                      [(length name + nat N, PBytes (encode name))] of
                 Inl err \<Rightarrow> (Inl err, w1)
               | Inr in_buf2 \<Rightarrow>
                   (case ioctl_array e h IOCTL_GET_EFIVAR in_buf2 w1 of
                      (Inl err, w2) \<Rightarrow>
                        (if err = IOError
                         then (Inr (0, [], 0, PNone, PStr guid, 0),
                               w2\<lparr>trace := trace w2 @ [LogDebug DbgIOErrorGetVar]\<rparr>)
                         else (Inl err, w2))
                    | (Inr buffer2, w2) \<Rightarrow>
                        (case unpack_uints 4 2 (py_slice None (Some 8) buffer2) of
                           Inl err \<Rightarrow> (Inl err, w2)
                         | Inr r2 \<Rightarrow>
                             get_EFI_variable_result guid (N + 52 + int (length name)) buffer2
                               (r2 ! 0) (r2 ! 1) w2)))
            else get_EFI_variable_result guid (52 + int (length name)) buffer N st w1)"
  using assms by (simp add: kern_get_EFI_variable_full_def Let_def)









text \<open>
  Claim C3. If the final reply (the probe's when its status is not 5, the retry's
  otherwise) reports a size greater than the size that was requested, the call logs the
  violation and returns \<^verbatim>\<open>None\<close> as data; nothing is sliced from the buffer.
\<close>

theorem get_EFI_variable_oversized:
  assumes gs: "guid_fields guid = Inr gs"
    and p: "pack_I_s ((52 + int (length name)) # gs @ [int (length name)])
              [(length name, PBytes (encode name))] = Inr in_buf"
    and i: "ioctl_array e h IOCTL_GET_EFIVAR in_buf w = (Inr buffer, w1)"
    and u: "unpack_uints 4 2 (py_slice None (Some 8) buffer) = Inr [N, st]"
  shows "(st \<noteq> 5 \<longrightarrow> 52 + int (length name) < N \<longrightarrow>
            kern_get_EFI_variable_full e h name guid w
              = (Inr (0, [], 0, PNone, PStr guid, 0),
                 w1\<lparr>trace := trace w1 @ [LogDebug DbgIncorrectSize]\<rparr>))
       \<and> (st = 5 \<longrightarrow>
            (\<forall>in_buf2 buffer2 w2 N2 st2.
               pack_I_s ((N + 52 + int (length name)) # gs @ [int (length name)])
                 [(length name + nat N, PBytes (encode name))] = Inr in_buf2 \<longrightarrow>
               ioctl_array e h IOCTL_GET_EFIVAR in_buf2 w1 = (Inr buffer2, w2) \<longrightarrow>
               unpack_uints 4 2 (py_slice None (Some 8) buffer2) = Inr [N2, st2] \<longrightarrow>
               N + 52 + int (length name) < N2 \<longrightarrow>
               kern_get_EFI_variable_full e h name guid w
                 = (Inr (0, [], 0, PNone, PStr guid, 0),
                    w2\<lparr>trace := trace w2 @ [LogDebug DbgIncorrectSize]\<rparr>)))"
  using kern_get_probe [OF gs p i u]
  by (auto simp: get_EFI_variable_result_def Let_def)

lemma canonical_sample: "canonical_guid sample_guid"
  by code_simp

lemma length_encode: "length name \<le> length (encode name)"
proof (induction name)
  case Nil
  then show ?case by (simp add: encode_def)
next
  case (Cons c name)
  have "1 \<le> length (utf8 c)" by (simp add: utf8_def Let_def)
  with Cons show ?case by (simp add: encode_def)
qed

lemma encode_ascii:
  "list_all (\<lambda>c. (of_char c :: nat) < 128) name \<Longrightarrow>
   take (length name) (encode name) = map (\<lambda>c. of_nat (of_char c)) name"
  by (induction name) (simp_all add: encode_def utf8_def)

lemma pack_get_request:
  assumes "canonical_guid guid" and "int n + 52 + int (length name) < 2 ^ 32"
  shows "pack_I_s ((int n + 52 + int (length name)) # guid_ints guid @ [int (length name)])
           [(length name + n, PBytes (encode name))] = Inr (get_request name guid n)"
proof -
  from assms guid_ints_range(2) [OF assms(1)]
  have "list_all (\<lambda>v. 0 \<le> v \<and> v < 2 ^ 32)
          ((int n + 52 + int (length name)) # guid_ints guid @ [int (length name)])"
    by simp
  from pack_I_s_one [OF this] show ?thesis by (simp add: get_request_def)
qed

lemma length_get_request:
  "canonical_guid guid \<Longrightarrow> length (get_request name guid n) = 52 + length name + n"
  by (simp add: get_request_def length_concat comp_def guid_ints_range(1) sum_list_triv min_def)

lemma reply_words_unpack:
  assumes "0 \<le> a" "a < 2 ^ 32" "0 \<le> b" "b < 2 ^ 32" and "8 \<le> length buf"
  shows "unpack_uints 4 2 (py_slice None (Some 8)
           (take (length buf) (reply_words a b) @ drop (length (reply_words a b)) buf)) = Inr [a, b]"
proof -
  have l: "length (reply_words a b) = 8" by (simp add: reply_words_def)
  have "pack_uints 4 [a, b] = Inr (reply_words a b)"
    using assms(1-4) by (simp add: pack_uint_def reply_words_def)
  from pack_uints_unpack_list [OF this]
  have "unpack_uints 4 2 (reply_words a b) = Inr [a, b]"
    by (simp add: unpack_uints_def l eval_nat_numeral)
  moreover have "py_slice None (Some 8)
      (take (length buf) (reply_words a b) @ drop (length (reply_words a b)) buf) = reply_words a b"
    using slice_take [of 8 "take (length buf) (reply_words a b) @ drop (length (reply_words a b)) buf"]
      assms(5) l by simp
  ultimately show ?thesis by simp
qed

text \<open>
  The probe for the variable \<^verbatim>\<open>Boot\<close> of the sample GUID, against a driver whose first
  answer is the pair of words \<open>a\<close>, \<open>b\<close>.
\<close>

lemma sample_probe:
  assumes drv: "drv [] (0xC0084300 + IOCTL_GET_EFIVAR) (get_request ''Boot'' sample_guid 0)
                  = Some (reply_words a b)"
    and rng: "0 \<le> a" "a < 2 ^ 32" "0 \<le> b" "b < 2 ^ 32"
  shows "guid_fields sample_guid = Inr (guid_ints sample_guid)"
    and "pack_I_s ((52 + int (length ''Boot'')) # guid_ints sample_guid @ [int (length ''Boot'')])
           [(length ''Boot'', PBytes (encode ''Boot''))] = Inr (get_request ''Boot'' sample_guid 0)"
    and "ioctl_array (env_with drv) h64 IOCTL_GET_EFIVAR (get_request ''Boot'' sample_guid 0) w0
           = (Inr (take (length (get_request ''Boot'' sample_guid 0)) (reply_words a b)
                   @ drop (length (reply_words a b)) (get_request ''Boot'' sample_guid 0)),
              w0\<lparr>trace := [Ioctl (0xC0084300 + IOCTL_GET_EFIVAR) (get_request ''Boot'' sample_guid 0)]\<rparr>)"
    and "unpack_uints 4 2 (py_slice None (Some 8)
           (take (length (get_request ''Boot'' sample_guid 0)) (reply_words a b)
            @ drop (length (reply_words a b)) (get_request ''Boot'' sample_guid 0))) = Inr [a, b]"
proof -
  show "guid_fields sample_guid = Inr (guid_ints sample_guid)"
    by (rule guid_fields_canonical [OF canonical_sample])
  show "pack_I_s ((52 + int (length ''Boot'')) # guid_ints sample_guid @ [int (length ''Boot'')])
           [(length ''Boot'', PBytes (encode ''Boot''))] = Inr (get_request ''Boot'' sample_guid 0)"
    using pack_get_request [OF canonical_sample, of 0 "''Boot''"] by simp
  show "ioctl_array (env_with drv) h64 IOCTL_GET_EFIVAR (get_request ''Boot'' sample_guid 0) w0
           = (Inr (take (length (get_request ''Boot'' sample_guid 0)) (reply_words a b)
                   @ drop (length (reply_words a b)) (get_request ''Boot'' sample_guid 0)),
              w0\<lparr>trace := [Ioctl (0xC0084300 + IOCTL_GET_EFIVAR) (get_request ''Boot'' sample_guid 0)]\<rparr>)"
    using drv by (simp add: ioctl_array_open [of h64 "0xC0084300"] w0_def)
  show "unpack_uints 4 2 (py_slice None (Some 8)
           (take (length (get_request ''Boot'' sample_guid 0)) (reply_words a b)
            @ drop (length (reply_words a b)) (get_request ''Boot'' sample_guid 0))) = Inr [a, b]"
    by (rule reply_words_unpack [OF rng]) (simp add: length_get_request [OF canonical_sample])
qed



theorem get_EFI_variable_oversized_witness:
  "fst (kern_get_EFI_variable_full env_oversized h64 ''Boot'' sample_guid w0)
     = Inr (0, [], 0, PNone, PStr sample_guid, 0)
   \<and> fst (kern_get_EFI_variable_full env_grow h64 ''Boot'' sample_guid w0)
     = Inr (0, [], 0, PNone, PStr sample_guid, 0)"
proof -
  let ?req = "get_request ''Boot'' sample_guid 0"
  let ?w1 = "w0\<lparr>trace := [Ioctl (0xC0084300 + IOCTL_GET_EFIVAR) ?req]\<rparr>"
  have first: "fst (kern_get_EFI_variable_full env_oversized h64 ''Boot'' sample_guid w0)
                 = Inr (0, [], 0, PNone, PStr sample_guid, 0)"
  proof -
    let ?drv = "\<lambda>t c b. Some (reply_words 1000 0)"
    have d: "?drv [] (0xC0084300 + IOCTL_GET_EFIVAR) ?req = Some (reply_words 1000 0)" by simp
    have rng: "(0::int) \<le> 1000" "(1000::int) < 2 ^ 32" "(0::int) \<le> 0" "(0::int) < 2 ^ 32"
      by simp_all
    note s = sample_probe [of ?drv 1000 0, OF d rng]
    have "(0::int) \<noteq> 5" "52 + int (length ''Boot'') < 1000" by simp_all
    with get_EFI_variable_oversized [OF s, THEN conjunct1]
    show ?thesis unfolding env_oversized_def by simp
  qed
  have second: "fst (kern_get_EFI_variable_full env_grow h64 ''Boot'' sample_guid w0)
                  = Inr (0, [], 0, PNone, PStr sample_guid, 0)"
  proof -
    let ?drv = "\<lambda>t c b. if requests t = [] then Some (reply_words 4 5) else Some (reply_words 1000 0)"
    let ?e = "env_with ?drv"
    let ?req2 = "get_request ''Boot'' sample_guid 4"
    have d: "?drv [] (0xC0084300 + IOCTL_GET_EFIVAR) ?req = Some (reply_words 4 5)" by simp
    have rng: "(0::int) \<le> 4" "(4::int) < 2 ^ 32" "(0::int) \<le> 5" "(5::int) < 2 ^ 32" by simp_all
    note s = sample_probe [of ?drv 4 5, OF d rng]
    have p2: "pack_I_s ((4 + 52 + int (length ''Boot'')) # guid_ints sample_guid @ [int (length ''Boot'')])
                [(length ''Boot'' + nat 4, PBytes (encode ''Boot''))] = Inr ?req2"
      using pack_get_request [OF canonical_sample, of 4 "''Boot''"] by simp
    have i2: "ioctl_array ?e h64 IOCTL_GET_EFIVAR ?req2 ?w1
                = (Inr (take (length ?req2) (reply_words 1000 0) @ drop (length (reply_words 1000 0)) ?req2),
                   ?w1\<lparr>trace := trace ?w1 @ [Ioctl (0xC0084300 + IOCTL_GET_EFIVAR) ?req2]\<rparr>)"
      by (simp add: ioctl_array_open [of h64 "0xC0084300"])
    have u2: "unpack_uints 4 2 (py_slice None (Some 8)
                (take (length ?req2) (reply_words 1000 0) @ drop (length (reply_words 1000 0)) ?req2))
                = Inr [1000, 0]"
      by (rule reply_words_unpack) (simp_all add: length_get_request [OF canonical_sample])
    have big: "(4::int) + 52 + int (length ''Boot'') < 1000" by simp
    from get_EFI_variable_oversized [OF s, THEN conjunct2] p2 i2 u2 big
    have "kern_get_EFI_variable_full ?e h64 ''Boot'' sample_guid w0
            = (Inr (0, [], 0, PNone, PStr sample_guid, 0),
               (?w1\<lparr>trace := trace ?w1 @ [Ioctl (0xC0084300 + IOCTL_GET_EFIVAR) ?req2]\<rparr>)
                 \<lparr>trace := trace (?w1\<lparr>trace := trace ?w1 @ [Ioctl (0xC0084300 + IOCTL_GET_EFIVAR) ?req2]\<rparr>)
                              @ [LogDebug DbgIncorrectSize]\<rparr>)"
      by blast
    then show ?thesis unfolding env_grow_def by simp
  qed
  from first second show ?thesis by simp
qed

section \<open>The requests of GET and SET\<close>

text \<open>
  The first control call of GET and the only control call of SET, with the buffers they
  carry.
\<close>

lemma kern_get_first_request:
  assumes gs: "guid_fields guid = Inr gs"
    and p: "pack_I_s ((52 + int (length name)) # gs @ [int (length name)])
              [(length name, PBytes (encode name))] = Inr in_buf"
    and b: "ioctl_base h = Some b" "dev_fh h"
  shows "\<exists>t. trace (snd (kern_get_EFI_variable_full e h name guid w))
               = trace w @ Ioctl (b + IOCTL_GET_EFIVAR) in_buf # t"
  by (auto simp: kern_get_EFI_variable_full_def gs p ioctl_array_open [OF b]
        get_EFI_variable_result_def Let_def
      split: sum.splits option.splits prod.splits if_splits)

lemma pack_set_request:
  assumes g: "canonical_guid guid"
    and a: "0 \<le> attr" "attr < 2 ^ 32"
    and l: "60 + int (length name) + int (length v) < 2 ^ 32"
    and val: "val' = PBytes v \<or> (v = [] \<and> val' = PBytes [0x0])"
  shows "pack_I_s ((60 + int (length name) + int (length v)) # guid_ints guid
                     @ [attr, int (length name), int (length v)])
           [(length name, PBytes (encode name)), (length v, val')]
           = Inr (set_request name guid attr v)"
proof -
  let ?ws = "(60 + int (length name) + int (length v)) # guid_ints guid
               @ [attr, int (length name), int (length v)]"
  from a l guid_ints_range(2) [OF g]
  have "list_all (\<lambda>v. 0 \<le> v \<and> v < 2 ^ 32) ?ws"
    by simp
  with pack_uints_ok [of 4 ?ws]
  have "pack_uints 4 ?ws = Inr (concat (map (\<lambda>v. le_bytes 4 (nat v)) ?ws))"
    by simp
  with val length_encode [of name] show ?thesis
    by (auto simp: pack_I_s_def pack_s_def set_request_def)
qed

lemma length_set_request:
  "canonical_guid guid \<Longrightarrow> length (set_request name guid attr v) = 60 + length name + length v"
  using length_encode [of name]
  by (simp add: set_request_def length_concat comp_def guid_ints_range(1) sum_list_triv min_def)

lemma set_payload:
  assumes "val = PBytes v \<or> (v = [] \<and> (val = PNone \<or> val = PStr []))"
  shows "\<exists>val'. (if truthy val then map_sum id (\<lambda>n. (n, val)) (py_len val) else Inr (0, PBytes [0x0]))
                  = Inr (length v, val')
               \<and> (val' = PBytes v \<or> (v = [] \<and> val' = PBytes [0x0]))"
  using assms by (cases "v = []") auto

lemma kern_set_unfold:
  assumes gs: "guid_fields guid = Inr gs"
    and v: "(if truthy val then map_sum id (\<lambda>n. (n, val)) (py_len val) else Inr (0, PBytes [0x0]))
              = Inr (datalen, val')"
    and p: "pack_I_s ((60 + int (length name) + int datalen) # gs @ [attr, int (length name), int datalen])
              [(length name, PBytes (encode name)), (datalen, val')] = Inr in_buf"
  shows "kern_set_EFI_variable e h name guid val attr w =
           (case ioctl_array e h IOCTL_SET_EFIVAR in_buf w of
              (Inl err, w1) \<Rightarrow> (Inl err, w1)
            | (Inr buffer, w1) \<Rightarrow>
                (case unpack_uints 4 2 (py_slice None (Some 8) buffer) of
                   Inl err \<Rightarrow> (Inl err, w1)
                 | Inr r \<Rightarrow>
                     (if r ! 1 \<noteq> 0
                      then (Inr (r ! 1), w1\<lparr>trace := trace w1 @ [LogDebug (DbgSetFailed (r ! 1))]\<rparr>)
                      else (Inr (r ! 1), w1\<lparr>trace := trace w1 @ [Remount]\<rparr>))))"
  by (simp add: kern_set_EFI_variable_def Let_def gs v p split: prod.splits sum.splits)

lemma kern_set_request:
  assumes g: "canonical_guid guid"
    and b: "ioctl_base h = Some b" "dev_fh h"
    and a: "0 \<le> attr" "attr < 2 ^ 32"
    and l: "60 + int (length name) + int (length v) < 2 ^ 32"
    and val: "val = PBytes v \<or> (v = [] \<and> (val = PNone \<or> val = PStr []))"
  shows "\<exists>t. trace (snd (kern_set_EFI_variable e h name guid val attr w))
               = trace w @ Ioctl (b + IOCTL_SET_EFIVAR) (set_request name guid attr v) # t
             \<and> requests t = []"
    and "\<And>buffer w1 sz status.
           ioctl_array e h IOCTL_SET_EFIVAR (set_request name guid attr v) w = (Inr buffer, w1) \<Longrightarrow>
           unpack_uints 4 2 (py_slice None (Some 8) buffer) = Inr [sz, status] \<Longrightarrow>
           fst (kern_set_EFI_variable e h name guid val attr w) = Inr status"
proof -
  from set_payload [OF val] obtain val' where
    v: "(if truthy val then map_sum id (\<lambda>n. (n, val)) (py_len val) else Inr (0, PBytes [0x0]))
          = Inr (length v, val')"
    and v': "val' = PBytes v \<or> (v = [] \<and> val' = PBytes [0x0])"
    by blast
  note k = kern_set_unfold [OF guid_fields_canonical [OF g] v pack_set_request [OF g a l v']]
  show "\<exists>t. trace (snd (kern_set_EFI_variable e h name guid val attr w))
               = trace w @ Ioctl (b + IOCTL_SET_EFIVAR) (set_request name guid attr v) # t
             \<and> requests t = []"
    unfolding k
    by (auto simp: ioctl_array_open [OF b] Let_def split: option.splits sum.splits)
  show "fst (kern_set_EFI_variable e h name guid val attr w) = Inr status"
    if "ioctl_array e h IOCTL_SET_EFIVAR (set_request name guid attr v) w = (Inr buffer, w1)"
      and "unpack_uints 4 2 (py_slice None (Some 8) buffer) = Inr [sz, status]"
    for buffer w1 sz status
    unfolding k using that by simp
qed

text \<open>
  Claim C5. A canonical 36-character GUID is read by both GET and SET as the eleven
  integers of \<open>guid_ints\<close>: the hexadecimal values of 8, 4, 4, 2, 2, 2, 2, 2, 2, 2, 2
  digits at the offsets 0, 9, 14, 19, 21, 24, 26, 28, 30, 32, 34, the dashes at 8, 13, 18
  and 23 being skipped. GET packs them, in that order, as the 32-bit words 1 to 11 of its
  request, between the size and the name length; SET packs them as the words 1 to 11 of
  its request, between the size and the attributes.
\<close>

theorem guid_eleven_fields:
  assumes "canonical_guid guid" and "ioctl_base h = Some b" and "dev_fh h"
    and "52 + int (length name) < 2 ^ 32"
    and "0 \<le> attr" and "attr < 2 ^ 32"
    and "60 + int (length name) + int (length v) < 2 ^ 32"
  shows "guid_fields guid = Inr (guid_ints guid) \<and> length (guid_ints guid) = 11
       \<and> (\<exists>t. trace (snd (kern_get_EFI_variable_full e h name guid w))
                 = trace w @ Ioctl (b + IOCTL_GET_EFIVAR)
                     (concat (map (\<lambda>v. le_bytes 4 (nat v))
                        ((52 + int (length name)) # guid_ints guid @ [int (length name)]))
                      @ take (length name) (encode name)) # t)
       \<and> (\<exists>t. trace (snd (kern_set_EFI_variable e h name guid (PBytes v) attr w))
                 = trace w @ Ioctl (b + IOCTL_SET_EFIVAR)
                     (concat (map (\<lambda>v. le_bytes 4 (nat v))
                        ((60 + int (length name) + int (length v)) # guid_ints guid
                           @ [attr, int (length name), int (length v)]))
                      @ take (length name) (encode name) @ v) # t)"
proof -
  note gf = guid_fields_canonical [OF assms(1)]
  have p: "pack_I_s ((52 + int (length name)) # guid_ints guid @ [int (length name)])
             [(length name, PBytes (encode name))]
             = Inr (concat (map (\<lambda>v. le_bytes 4 (nat v))
                      ((52 + int (length name)) # guid_ints guid @ [int (length name)]))
                    @ take (length name) (encode name))"
    using pack_get_request [OF assms(1), of 0 name] assms(4) length_encode [of name]
    by (simp add: get_request_def)
  from kern_get_first_request [OF gf p assms(2,3)]
    kern_set_request(1) [OF assms(1,2,3,5,6,7), of "PBytes v"]
    gf guid_ints_range(1) [OF assms(1)]
  show ?thesis unfolding set_request_def by blast
qed

lemma guid_ints_sample:
  "guid_ints sample_guid = [0x8be4df61, 0x93ca, 0x11d2, 0xaa, 0x0d, 0x00, 0xe0, 0x98, 0x03, 0x2b, 0x8c]"
  by (simp add: guid_ints_def guid_segments_def sample_guid_def hexval_def hexdigit_def)

theorem guid_eleven_fields_witness:
  "canonical_guid sample_guid
   \<and> guid_fields sample_guid
       = Inr [0x8be4df61, 0x93ca, 0x11d2, 0xaa, 0x0d, 0x00, 0xe0, 0x98, 0x03, 0x2b, 0x8c]
   \<and> (\<exists>t. trace (snd (kern_get_EFI_variable_full env_echo h64 ''Boot'' sample_guid w0))
             = Ioctl 0xC008430D (get_request ''Boot'' sample_guid 0) # t)
   \<and> (\<exists>t. trace (snd (kern_set_EFI_variable env_echo h64 ''Boot'' sample_guid (PBytes [1, 2]) 7 w0))
             = Ioctl 0xC008430E (set_request ''Boot'' sample_guid 7 [1, 2]) # t)"
proof -
  have b: "ioctl_base h64 = Some 0xC0084300" and d: "dev_fh h64" by simp_all
  have n: "52 + int (length ''Boot'') < 2 ^ 32" by simp
  have a: "(0::int) \<le> 7" "(7::int) < 2 ^ 32" by simp_all
  have l: "60 + int (length ''Boot'') + int (length [1, 2 :: byte]) < 2 ^ 32" by simp
  from guid_eleven_fields [OF canonical_sample b d n a l, of env_echo w0]
  show ?thesis
    unfolding guid_ints_sample [symmetric]
    by (simp add: canonical_sample get_request_def set_request_def w0_def
          IOCTL_GET_EFIVAR_def IOCTL_SET_EFIVAR_def encode_def utf8_def)
qed

section \<open>Deleting and setting with an empty payload\<close>

text \<open>
  Claim C8, as stated, fails on the packed buffer: deleting the variable \<^verbatim>\<open>Boot\<close> sends
  64 bytes, the 60 bytes of header and the four of the name. The buffer ends with the
  \<^verbatim>\<open>t\<close> of the name; the zero byte that replaced the value is not in it, because its
  field is \<^verbatim>\<open>0s\<close>.
\<close>

theorem set_EFI_variable_no_zero_byte_counterexample:
  "requests (trace (snd (delete_EFI_variable env_echo h64 ''Boot'' sample_guid w0)))
     = [set_request ''Boot'' sample_guid 0x7 []]
   \<and> length (set_request ''Boot'' sample_guid 0x7 []) = 64
   \<and> last (set_request ''Boot'' sample_guid 0x7 []) = 0x74"
proof -
  have b: "ioctl_base h64 = Some 0xC0084300" and d: "dev_fh h64" by simp_all
  have a: "(0::int) \<le> 7" "(7::int) < 2 ^ 32" by simp_all
  have l: "60 + int (length ''Boot'') + int (length ([] :: byte list)) < 2 ^ 32" by simp
  have v: "PStr [] = PBytes [] \<or> (([] :: byte list) = [] \<and> (PStr [] = PNone \<or> PStr [] = PStr []))"
    by simp
  from kern_set_request(1) [OF canonical_sample b d a l v, of env_echo w0]
  have "requests (trace (snd (delete_EFI_variable env_echo h64 ''Boot'' sample_guid w0)))
          = [set_request ''Boot'' sample_guid 0x7 []]"
    by (auto simp: delete_EFI_variable_def w0_def)
  moreover have "length (set_request ''Boot'' sample_guid 0x7 []) = 64"
    by (simp add: length_set_request [OF canonical_sample])
  moreover have "last (set_request ''Boot'' sample_guid 0x7 []) = 0x74"
    by (simp add: set_request_def encode_def utf8_def)
  ultimately show ?thesis by simp
qed

text \<open>
  Claim C8, amended. \<^verbatim>\<open>delete_EFI_variable\<close> is \<^verbatim>\<open>set_EFI_variable\<close> with the empty
  string as payload. When the value given to SET is \<^verbatim>\<open>None\<close> or empty, the request is
  the fifteen header words, with the size 60 + name length and the data length 0,
  followed by the name and by no value byte; it is the only control call. The status
  returned is the second of the first two 32-bit words of the buffer after the call.
\<close>

theorem set_EFI_variable_empty_payload:
  assumes "canonical_guid guid" and "ioctl_base h = Some b" and "dev_fh h"
    and "0 \<le> attr" and "attr < 2 ^ 32"
    and "60 + int (length name) < 2 ^ 32"
    and "val = PNone \<or> val = PStr [] \<or> val = PBytes []"
  shows "delete_EFI_variable e h name guid w = set_EFI_variable e h name guid (PStr []) datasize attrs w
       \<and> (\<exists>t. trace (snd (kern_set_EFI_variable e h name guid val attr w))
                 = trace w @ Ioctl (b + IOCTL_SET_EFIVAR)
                     (concat (map (\<lambda>v. le_bytes 4 (nat v))
                        ((60 + int (length name)) # guid_ints guid @ [attr, int (length name), 0]))
                      @ take (length name) (encode name)) # t
               \<and> requests t = [])
       \<and> (\<forall>buffer w1 sz status.
             ioctl_array e h IOCTL_SET_EFIVAR
               (concat (map (\<lambda>v. le_bytes 4 (nat v))
                  ((60 + int (length name)) # guid_ints guid @ [attr, int (length name), 0]))
                @ take (length name) (encode name)) w = (Inr buffer, w1) \<longrightarrow>
             unpack_uints 4 2 (py_slice None (Some 8) buffer) = Inr [sz, status] \<longrightarrow>
             fst (kern_set_EFI_variable e h name guid val attr w) = Inr status)"
proof -
  have l: "60 + int (length name) + int (length ([] :: byte list)) < 2 ^ 32"
    using assms(6) by simp
  have v: "val = PBytes [] \<or> (([] :: byte list) = [] \<and> (val = PNone \<or> val = PStr []))"
    using assms(7) by auto
  have r: "set_request name guid attr []
             = concat (map (\<lambda>v. le_bytes 4 (nat v))
                  ((60 + int (length name)) # guid_ints guid @ [attr, int (length name), 0]))
               @ take (length name) (encode name)"
    by (simp add: set_request_def)
  have "delete_EFI_variable e h name guid w = set_EFI_variable e h name guid (PStr []) datasize attrs w"
    by (simp add: delete_EFI_variable_def set_EFI_variable_def)
  with kern_set_request [OF assms(1-5) l v, of e w, unfolded r]
  show ?thesis by blast
qed

theorem set_EFI_variable_empty_payload_witness:
  "canonical_guid sample_guid
   \<and> requests (trace (snd (kern_set_EFI_variable env_too_small h64 ''Boot'' sample_guid PNone 7 w0)))
       = [set_request ''Boot'' sample_guid 7 []]
   \<and> fst (kern_set_EFI_variable env_too_small h64 ''Boot'' sample_guid PNone 7 w0) = Inr 5"
proof -
  let ?drv = "\<lambda>t c b. Some (reply_words 4 5)"
  let ?e = "env_with ?drv"
  let ?req = "concat (map (\<lambda>v. le_bytes 4 (nat v))
                 ((60 + int (length ''Boot'')) # guid_ints sample_guid @ [7, int (length ''Boot''), 0]))
              @ take (length ''Boot'') (encode ''Boot'')"
  have b: "ioctl_base h64 = Some 0xC0084300" and d: "dev_fh h64" by simp_all
  have a: "(0::int) \<le> 7" "(7::int) < 2 ^ 32" by simp_all
  have l: "60 + int (length ''Boot'') < 2 ^ 32" by simp
  have v: "PNone = PNone \<or> PNone = PStr [] \<or> PNone = PBytes []" by simp
  have r: "set_request ''Boot'' sample_guid 7 [] = ?req"
    by (simp add: set_request_def)
  have len: "length ?req = 64"
    using length_set_request [OF canonical_sample, of "''Boot''" 7 "[]"] unfolding r by simp
  have i: "ioctl_array ?e h64 IOCTL_SET_EFIVAR ?req w0
             = (Inr (take (length ?req) (reply_words 4 5) @ drop (length (reply_words 4 5)) ?req),
                w0\<lparr>trace := trace w0 @ [Ioctl (0xC0084300 + IOCTL_SET_EFIVAR) ?req]\<rparr>)"
    by (simp add: ioctl_array_open [of h64 "0xC0084300"])
  have u: "unpack_uints 4 2 (py_slice None (Some 8)
             (take (length ?req) (reply_words 4 5) @ drop (length (reply_words 4 5)) ?req)) = Inr [4, 5]"
    by (rule reply_words_unpack) (simp_all add: len)
  from set_EFI_variable_empty_payload [OF canonical_sample b d a l v, of ?e w0]
  obtain t where
    t: "trace (snd (kern_set_EFI_variable ?e h64 ''Boot'' sample_guid PNone 7 w0))
          = trace w0 @ Ioctl (0xC0084300 + IOCTL_SET_EFIVAR) ?req # t" "requests t = []"
    and s: "\<forall>buffer w1 sz status.
             ioctl_array ?e h64 IOCTL_SET_EFIVAR ?req w0 = (Inr buffer, w1) \<longrightarrow>
             unpack_uints 4 2 (py_slice None (Some 8) buffer) = Inr [sz, status] \<longrightarrow>
             fst (kern_set_EFI_variable ?e h64 ''Boot'' sample_guid PNone 7 w0) = Inr status"
    by blast
  from s i u have "fst (kern_set_EFI_variable ?e h64 ''Boot'' sample_guid PNone 7 w0) = Inr 5"
    by blast
  moreover from t have "requests (trace (snd (kern_set_EFI_variable ?e h64 ''Boot'' sample_guid PNone 7 w0)))
      = [set_request ''Boot'' sample_guid 7 []]"
    unfolding r by (simp add: w0_def)
  ultimately show ?thesis
    unfolding env_too_small_def using canonical_sample by simp
qed

section \<open>Transport failures and the size of replies\<close>












section \<open>LIST as a sequence of GETs\<close>

text \<open>
  The loop of LIST and the sequence of GETs over the split entries are the same function
  of the directory.
\<close>

lemma list_loop_get_each:
  "list_loop e h vs variables w
     = get_each e h (map entry_split (filter (\<lambda>v. 37 < length v) vs)) variables w"
proof (induction vs arbitrary: variables w)
  case Nil
  then show ?case by simp
next
  case (Cons v vs)
  show ?case
  proof (cases "37 < length v")
    case False
    then have "length v \<le> 37" by simp
    from list_loop_skip [OF this] False Cons.IH show ?thesis by simp
  next
    case True
    let ?ps = "map entry_split (filter (\<lambda>v. 37 < length v) vs)"
    let ?name = "take (length v - 37) v" and ?guid = "drop (length v - 36) v"
    from list_loop_split [OF True, of e h vs variables w]
    have "list_loop e h (v # vs) variables w =
            (case kern_get_EFI_variable_full e h ?name ?guid w of
               (Inl err, w') \<Rightarrow> (Inl err, w')
             | (Inr var, w') \<Rightarrow> list_loop e h vs (variables(?name \<mapsto> [var])) w')"
      by blast
    also have "\<dots> =
            (case kern_get_EFI_variable_full e h ?name ?guid w of
               (Inl err, w') \<Rightarrow> (Inl err, w')
             | (Inr var, w') \<Rightarrow> get_each e h ?ps (variables(?name \<mapsto> [var])) w')"
      by (simp only: Cons.IH)
    also have "\<dots> = get_each e h ((?name, ?guid) # ?ps) variables w"
      by (simp only: get_each.simps)
    also have "\<dots> = get_each e h (map entry_split (filter (\<lambda>v. 37 < length v) (v # vs))) variables w"
      using True by (simp add: entry_split_def)
    finally show ?thesis .
  qed
qed

lemma entry_split_parts:
  assumes "37 < length v"
  shows "v = fst (entry_split v) @ v ! (length v - 37) # snd (entry_split v)"
    and "length (snd (entry_split v)) = 36" and "fst (entry_split v) \<noteq> []"
  using list_loop_split [OF assms] assms by (auto simp: entry_split_def)

text \<open>
  Claim C6. When one of the two directories exists and can be read, LIST is the sequence
  of GETs for the entries of more than 37 characters, each split into the name made of
  all but its last 37 characters and the GUID made of its last 36 characters; the other
  entries are passed over. Such an entry is name, one separating character, GUID. The
  entry \<^verbatim>\<open>MyVar-8be4df61-93ca-11d2-aa0d-00e098032b8c\<close> is split into the name
  \<^verbatim>\<open>MyVar\<close> and the GUID \<^verbatim>\<open>8be4df61-93ca-11d2-aa0d-00e098032b8c\<close>.
\<close>

theorem kern_list_splits_entries:
  assumes "isdir_efivars e \<and> listdir_efivars e = Some varlist
           \<or> \<not> isdir_efivars e \<and> isdir_vars e \<and> listdir_vars e = Some varlist"
  shows "kern_list_EFI_variables e h w =
           (case get_each e h (map entry_split (filter (\<lambda>v. 37 < length v) varlist)) Map.empty w of
              (Inl err, w') \<Rightarrow> (Inl err, w')
            | (Inr variables, w') \<Rightarrow> (Inr (Some variables), w'))
       \<and> (\<forall>v\<in>set varlist. 37 < length v \<longrightarrow>
             v = fst (entry_split v) @ v ! (length v - 37) # snd (entry_split v)
             \<and> length (snd (entry_split v)) = 36 \<and> fst (entry_split v) \<noteq> [])
       \<and> entry_split ''MyVar-8be4df61-93ca-11d2-aa0d-00e098032b8c''
           = (''MyVar'', ''8be4df61-93ca-11d2-aa0d-00e098032b8c'')"
proof -
  have "kern_list_EFI_variables e h w =
           (case get_each e h (map entry_split (filter (\<lambda>v. 37 < length v) varlist)) Map.empty w of
              (Inl err, w') \<Rightarrow> (Inl err, w')
            | (Inr variables, w') \<Rightarrow> (Inr (Some variables), w'))"
    using assms by (auto simp: kern_list_EFI_variables_def list_dir_def list_loop_get_each)
  moreover have "\<forall>v\<in>set varlist. 37 < length v \<longrightarrow>
             v = fst (entry_split v) @ v ! (length v - 37) # snd (entry_split v)
             \<and> length (snd (entry_split v)) = 36 \<and> fst (entry_split v) \<noteq> []"
    using entry_split_parts by blast
  moreover have "entry_split ''MyVar-8be4df61-93ca-11d2-aa0d-00e098032b8c''
           = (''MyVar'', ''8be4df61-93ca-11d2-aa0d-00e098032b8c'')"
    by (simp add: entry_split_def)
  ultimately show ?thesis by blast
qed

lemma ioctl_array_same_driver:
  "fcntl_ioctl e = fcntl_ioctl e' \<Longrightarrow> ioctl_array e h nr buf w = ioctl_array e' h nr buf w"
  by (auto simp: ioctl_array_def ioctl_def Let_def split: option.splits)

lemma kern_get_same_driver:
  assumes "fcntl_ioctl e = fcntl_ioctl e'"
  shows "kern_get_EFI_variable_full e h name guid w = kern_get_EFI_variable_full e' h name guid w"
  unfolding kern_get_EFI_variable_full_def
  by (simp only: ioctl_array_same_driver [OF assms])

lemma get_MyVar_not_found:
  "kern_get_EFI_variable_full env_not_found h64 ''MyVar'' sample_guid w0
     = (Inr (0, [], 0, PStr [], PInt 0, 0),
        \<lparr>trace = [Ioctl (0xC0084300 + IOCTL_GET_EFIVAR) (get_request ''MyVar'' sample_guid 0),
                  LogDebug (DbgGetFailed 14)], fpos = 0\<rparr>)"
proof -
  let ?req = "get_request ''MyVar'' sample_guid 0"
  let ?buffer = "take (length ?req) (reply_words 0 14) @ drop (length (reply_words 0 14)) ?req"
  have gs: "guid_fields sample_guid = Inr (guid_ints sample_guid)"
    by (rule guid_fields_canonical [OF canonical_sample])
  have p: "pack_I_s ((52 + int (length ''MyVar'')) # guid_ints sample_guid @ [int (length ''MyVar'')])
             [(length ''MyVar'', PBytes (encode ''MyVar''))] = Inr ?req"
    using pack_get_request [OF canonical_sample, of 0 "''MyVar''"] by simp
  have i: "ioctl_array env_not_found h64 IOCTL_GET_EFIVAR ?req w0
             = (Inr ?buffer, w0\<lparr>trace := trace w0 @ [Ioctl (0xC0084300 + IOCTL_GET_EFIVAR) ?req]\<rparr>)"
    by (simp add: ioctl_array_open [of h64 "0xC0084300"] env_not_found_def)
  have u: "unpack_uints 4 2 (py_slice None (Some 8) ?buffer) = Inr [0, 14]"
    by (rule reply_words_unpack) (simp_all add: length_get_request [OF canonical_sample])
  show ?thesis
    unfolding kern_get_probe [OF gs p i u]
    by (simp add: get_EFI_variable_result_def w0_def)
qed

theorem kern_list_splits_entries_witness:
  "fst (kern_list_EFI_variables env_list h64 w0)
     = Inr (Some [''MyVar'' \<mapsto> [(0, [], 0, PStr [], PInt 0, 0)]])
   \<and> requests (trace (snd (kern_list_EFI_variables env_list h64 w0)))
       = [get_request ''MyVar'' sample_guid 0]"
proof -
  let ?entry = "''MyVar-8be4df61-93ca-11d2-aa0d-00e098032b8c''"
  have a: "isdir_efivars env_list \<and> listdir_efivars env_list = Some [?entry]
           \<or> \<not> isdir_efivars env_list \<and> isdir_vars env_list \<and> listdir_vars env_list = Some [?entry]"
    by (simp add: env_list_def)
  have len: "37 < length ?entry" by simp
  from kern_list_splits_entries [OF a, of h64 w0]
  have k: "kern_list_EFI_variables env_list h64 w0 =
           (case get_each env_list h64 (map entry_split (filter (\<lambda>v. 37 < length v) [?entry]))
                   Map.empty w0 of
              (Inl err, w') \<Rightarrow> (Inl err, w')
            | (Inr variables, w') \<Rightarrow> (Inr (Some variables), w'))"
    and s: "entry_split ?entry = (''MyVar'', ''8be4df61-93ca-11d2-aa0d-00e098032b8c'')"
    by blast+
  have f: "map entry_split (filter (\<lambda>v. 37 < length v) [?entry]) = [(''MyVar'', sample_guid)]"
    using len s by (simp add: sample_guid_def)
  have g: "kern_get_EFI_variable_full env_list h64 ''MyVar'' sample_guid w0
             = kern_get_EFI_variable_full env_not_found h64 ''MyVar'' sample_guid w0"
    by (rule kern_get_same_driver) (simp add: env_list_def)
  show ?thesis
    unfolding k f by (simp add: g get_MyVar_not_found)
qed

end
